theory Spec2Isabelle
  imports Complex_Main "HOL-Library.Sublist" "HOL-Library.Product_Lexorder"
begin

section \<open>Errors and arrays\<close>

text \<open>
  The exceptions the modelled Python code can raise. A function that can raise returns
  \<open>error + 'a\<close>, with \<open>Inl\<close> for the exception.
  Arrays of floating-point numbers are modelled over the real numbers: rounding is not
  modelled, so every arithmetic statement below is about exact arithmetic.
\<close>

datatype error =
    RuntimeError string
  | AssertionError string
  | KeyError string
  | UnknownMethodError string
  | ValueError
  | IndexError
  | TypeError
  | NameError
  | AttributeError

text \<open>Sequencing: the second computation runs only if the first did not raise.\<close>

definition and_then :: "error + 'a \<Rightarrow> ('a \<Rightarrow> error + 'b) \<Rightarrow> error + 'b" where
  "and_then r f = (case r of Inl e \<Rightarrow> Inl e | Inr v \<Rightarrow> f v)"

type_synonym vec = "real list"

text \<open>A two-dimensional array keeps its number of columns, which a list of rows loses
  when there are no rows (\<open>np.zeros((0, n))\<close>).\<close>

record matrix =
  m_cols :: nat
  m_rows :: "vec list"

definition smul :: "real \<Rightarrow> vec \<Rightarrow> vec" where
  "smul a x = map (\<lambda>v. a * v) x"

definition vadd :: "vec \<Rightarrow> vec \<Rightarrow> vec" where
  "vadd x y = map2 (+) x y"

definition row_dot :: "vec \<Rightarrow> vec \<Rightarrow> real" where
  "row_dot r x = sum_list (map2 (*) r x)"

definition mat_vec :: "matrix \<Rightarrow> vec \<Rightarrow> vec" where
  "mat_vec M x = map (\<lambda>r. row_dot r x) (m_rows M)"

definition well_shaped :: "matrix \<Rightarrow> bool" where
  "well_shaped M = list_all (\<lambda>r. length r = m_cols M) (m_rows M)"

text \<open>\<open>jnp.dot(A, x)\<close> for a two-dimensional \<open>A\<close> and a one-dimensional \<open>x\<close>: the shapes
  must agree, otherwise the call raises.\<close>

definition dot :: "matrix \<Rightarrow> vec \<Rightarrow> error + vec" where
  "dot M x = (if length x = m_cols M \<and> well_shaped M then Inr (mat_vec M x) else Inl ValueError)"

text \<open>\<open>x[idx]\<close> with an integer index array: a negative index counts from the end, an
  index out of range raises \<open>IndexError\<close>.\<close>

definition get_item :: "vec \<Rightarrow> int \<Rightarrow> error + real" where
  "get_item x i =
     (let n = int (length x); j = (if i < 0 then n + i else i)
      in if 0 \<le> j \<and> j < n then Inr (x ! nat j) else Inl IndexError)"

fun take_idx :: "vec \<Rightarrow> int list \<Rightarrow> error + vec" where
  "take_idx x [] = Inr []"
| "take_idx x (i # is) =
     (case get_item x i of
        Inl e \<Rightarrow> Inl e
      | Inr v \<Rightarrow> (case take_idx x is of Inl e \<Rightarrow> Inl e | Inr vs \<Rightarrow> Inr (v # vs)))"

section \<open>Linear constraint objectives (\<open>desc/objectives/linear_objectives.py\<close>)\<close>

text \<open>A basis mode is a row \<open>[l, m, n]\<close> of a basis' \<open>modes\<close> array.\<close>

type_synonym mode = "int \<times> int \<times> int"

text \<open>The constructor argument \<open>modes\<close>: \<open>None\<close>, \<open>True\<close>/\<open>False\<close>, or an array of
  mode rows (already two-dimensional, as after \<open>np.atleast_2d\<close>).\<close>

datatype modes_arg = ModesNone | ModesBool bool | ModesArray "mode list"

text \<open>The local variable \<open>modes\<close> of a build: \<open>np.array([[]])\<close>, one row of no columns,
  when no mode is fixed, and rows of three columns otherwise.\<close>

datatype mode_rows = NoColumns | Rows "mode list"

text \<open>The parts of an \<open>Equilibrium\<close> that the modelled builds read. A basis'
  \<open>num_modes\<close> is the number of rows of its \<open>modes\<close>.\<close>

record equilibrium =
  surface_R_basis_modes :: "mode list"
  surface_R_lmn :: vec
  surface_rho :: real
  R_basis_modes :: "mode list"
  bdry_mode :: string
  L_basis_num_modes :: nat
  eq_Psi :: real

text \<open>The attributes of an objective that the modelled methods read or write. An
  attribute that is not set yet is \<open>None\<close>; \<open>self_target\<close> is \<open>self.target\<close>, which is
  Python's \<open>None\<close> when no target was given.\<close>

record objective =
  self_modes :: modes_arg
  self_fixed_boundary :: bool
  self_surface_label :: "real option"
  self_args :: "string list"
  self_target :: "vec option"
  self_normalize :: bool
  self_dim_f :: "nat option"
  self_A :: "matrix option"
  self_idx :: "int list option"
  self_normalization :: "real option"

subsection \<open>NumPy helpers\<close>

fun index_of :: "'a \<Rightarrow> 'a list \<Rightarrow> nat" where
  "index_of v [] = 0"
| "index_of v (x # xs) = (if x = v then 0 else Suc (index_of v xs))"

text \<open>\<open>np.intersect1d(ar1, ar2, return_indices=True)\<close> on rows viewed as records of three
  fields: the sorted common rows (records compare field by field), and the index of the
  first occurrence of each in \<open>ar1\<close> and in \<open>ar2\<close>.\<close>

definition intersect1d :: "mode list \<Rightarrow> mode list \<Rightarrow> mode list \<times> nat list \<times> nat list" where
  "intersect1d ar1 ar2 =
     (let common = sort (remdups (filter (\<lambda>v. v \<in> set ar2) ar1))
      in (common, map (\<lambda>v. index_of v ar1) common, map (\<lambda>v. index_of v ar2) common))"

definition arange :: "nat \<Rightarrow> nat list" where
  "arange n = [0..<n]"

definition zeros :: "nat \<Rightarrow> nat \<Rightarrow> matrix" where
  "zeros r c = \<lparr>m_cols = c, m_rows = replicate r (replicate c 0)\<rparr>"

text \<open>\<open>np.eye(n)[idx, :]\<close>: the rows \<open>idx\<close> of the identity matrix.\<close>

definition unit_row :: "nat \<Rightarrow> nat \<Rightarrow> vec" where
  "unit_row n i = map (\<lambda>k. if k = i then 1 else 0) [0..<n]"

definition eye_rows :: "nat \<Rightarrow> nat list \<Rightarrow> matrix" where
  "eye_rows n idx = \<lparr>m_cols = n, m_rows = map (unit_row n) idx\<rparr>"

subsection \<open>\<open>FixBoundaryR\<close>\<close>

text \<open>\<open>FixBoundaryR.__init__\<close>. The base class constructor (not among the source files)
  is taken to store \<open>target\<close> and \<open>normalize\<close>, which \<open>build\<close> reads back as
  \<open>self.target\<close> and \<open>self._normalize\<close>.\<close>

definition FixBoundaryR_init ::
  "vec option \<Rightarrow> bool \<Rightarrow> bool \<Rightarrow> modes_arg \<Rightarrow> real option \<Rightarrow> objective" where
  "FixBoundaryR_init target do_normalize fixed_boundary modes surface_label =
     \<lparr>self_modes = modes, self_fixed_boundary = fixed_boundary,
      self_surface_label = surface_label,
      self_args = (if fixed_boundary then [''R_lmn''] else [''Rb_lmn'']),
      self_target = target, self_normalize = do_normalize, self_dim_f = None,
      self_A = None, self_idx = None, self_normalization = None\<rparr>"

text \<open>The first statement of \<open>build\<close>: the local variables \<open>modes\<close>, \<open>idx\<close> and, in the
  last branch only, \<open>modes_idx\<close> (unbound otherwise). The warning of the last branch
  changes no state and is not modelled.\<close>

definition select_modes :: "mode list \<Rightarrow> modes_arg \<Rightarrow> mode_rows \<times> nat list \<times> nat list option" where
  "select_modes basis_modes ms =
     (case ms of
        ModesNone \<Rightarrow> (NoColumns, [], None)
      | ModesBool False \<Rightarrow> (NoColumns, [], None)
      | ModesBool True \<Rightarrow> (Rows basis_modes, arange (length basis_modes), None)
      | ModesArray given \<Rightarrow>
          (case intersect1d basis_modes given of
             (_, idx, modes_idx) \<Rightarrow> (Rows (map (\<lambda>i. basis_modes ! i) idx), idx, Some modes_idx)))"

definition no_modes_message :: string where
  "no_modes_message =
     ''Attempting to provide target for R boundary modes without '' @
     ''providing modes array!'' @
     ''You must pass in the modes corresponding to the'' @
     ''provided target''"

text \<open>The block \<open>if self.target is not None: ...\<close>: the check that raises, then the
  rearrangement \<open>self.target[modes_idx]\<close>.\<close>

definition rearrange_target :: "objective \<Rightarrow> nat list option \<Rightarrow> error + objective" where
  "rearrange_target self modes_idx =
     (case self_target self of
        None \<Rightarrow> Inr self
      | Some t \<Rightarrow>
          if self_modes self = ModesBool True \<or> self_modes self = ModesBool False
          then Inl (RuntimeError no_modes_message)
          else (case modes_idx of
                  None \<Rightarrow> Inl NameError
                | Some mi \<Rightarrow>
                    (case take_idx t (map int mi) of
                       Inl e \<Rightarrow> Inl e
                     | Inr t' \<Rightarrow> Inr (self\<lparr>self_target := Some t'\<rparr>))))"

text \<open>The constraint matrix on flux surfaces (\<open>fixed_boundary\<close>): entry \<open>(j, i)\<close> is
  \<open>zernike_radial(surf, l, m)\<close> where row \<open>j\<close> of \<open>modes\<close> has the \<open>m, n\<close> of the
  \<open>i\<close>-th mode \<open>(l, m, n)\<close> of \<open>eq.R_basis\<close>, and only when \<open>eq.bdry_mode == "lcfs"\<close>.
  \<open>zernike_radial\<close> is not among the source files and is a parameter. With the one
  row of no columns the comparison \<open>modes[:, 1:] == [m, n]\<close> does not broadcast and the
  loop body fails (with an exception that depends on the NumPy version).\<close>

definition boundary_matrix ::
  "(real \<Rightarrow> int \<Rightarrow> int \<Rightarrow> real) \<Rightarrow> equilibrium \<Rightarrow> objective \<Rightarrow> mode_rows \<Rightarrow> nat \<Rightarrow> error + matrix" where
  "boundary_matrix zernike_radial eq self modes dim_f =
     (let surf = (case self_surface_label self of None \<Rightarrow> surface_rho eq | Some s \<Rightarrow> s);
          n = length (R_basis_modes eq)
      in if bdry_mode eq \<noteq> ''lcfs'' \<or> R_basis_modes eq = [] then Inr (zeros dim_f n)
         else (case modes of
                 NoColumns \<Rightarrow> Inl ValueError
               | Rows rows \<Rightarrow>
                   Inr \<lparr>m_cols = n,
                        m_rows = map (\<lambda>(lj, mj, nj).
                                   map (\<lambda>(l, m, n). if (mj, nj) = (m, n)
                                                      then zernike_radial surf l m else 0)
                                       (R_basis_modes eq))
                                 rows\<rparr>))"

text \<open>\<open>FixBoundaryR.build\<close>. It returns the exception raised, if any, together with the
  object as the build leaves it: attributes assigned before a \<open>raise\<close> stay assigned.
  \<open>compute_scaling_factors\<close> (here its entry \<open>"a"\<close>) and the base class \<open>build\<close> are not
  among the source files and are parameters.\<close>

definition FixBoundaryR_build ::
  "(real \<Rightarrow> int \<Rightarrow> int \<Rightarrow> real) \<Rightarrow> (equilibrium \<Rightarrow> real) \<Rightarrow>
   (equilibrium \<Rightarrow> objective \<Rightarrow> error option \<times> objective) \<Rightarrow>
   equilibrium \<Rightarrow> objective \<Rightarrow> error option \<times> objective" where
  "FixBoundaryR_build zernike_radial scale_a super_build eq self =
     (case select_modes (surface_R_basis_modes eq) (self_modes self) of
        (modes, idx, modes_idx) \<Rightarrow>
          let self1 = self\<lparr>self_dim_f := Some (length idx)\<rparr> in
          (case rearrange_target self1 modes_idx of
             Inl e \<Rightarrow> (Some e, self1)
           | Inr self2 \<Rightarrow>
               (case (if self_fixed_boundary self2
                      then boundary_matrix zernike_radial eq self2 modes (length idx)
                      else Inr (eye_rows (length (surface_R_basis_modes eq)) idx)) of
                  Inl e \<Rightarrow>
                    (Some e, self2\<lparr>self_A := Some (zeros (length idx) (length (R_basis_modes eq)))\<rparr>)
                | Inr M \<Rightarrow>
                    let self3 = self2\<lparr>self_A := Some M\<rparr> in
                    (case (case self_target self3 of
                             Some t \<Rightarrow> Inr self3
                           | None \<Rightarrow>
                               (case take_idx (surface_R_lmn eq) (map int idx) of
                                  Inl e \<Rightarrow> Inl e
                                | Inr t \<Rightarrow> Inr (self3\<lparr>self_target := Some t\<rparr>))) of
                       Inl e \<Rightarrow> (Some e, self3)
                     | Inr self4 \<Rightarrow>
                         super_build eq
                           (if self_normalize self4
                            then self4\<lparr>self_normalization := Some (scale_a eq)\<rparr>
                            else self4)))))"

subsection \<open>\<open>FixThetaSFL\<close> and \<open>FixPsi\<close>\<close>

text \<open>\<open>FixThetaSFL.__init__(eq, target=0, weight, name)\<close>: only the base class constructor
  runs, which is taken to store the target.\<close>

definition FixThetaSFL_init :: "vec option \<Rightarrow> objective" where
  "FixThetaSFL_init target =
     \<lparr>self_modes = ModesNone, self_fixed_boundary = False, self_surface_label = None,
      self_args = [''L_lmn''], self_target = target, self_normalize = False,
      self_dim_f = None, self_A = None, self_idx = None, self_normalization = None\<rparr>"

text \<open>\<open>FixThetaSFL.build\<close>: \<open>idx = np.arange(eq.L_basis.num_modes)\<close>, then \<open>self._idx\<close>,
  \<open>self._dim_f\<close> and \<open>self.target = np.zeros_like(modes_idx)\<close>, then the base class
  \<open>build\<close>.\<close>

definition FixThetaSFL_build ::
  "(equilibrium \<Rightarrow> objective \<Rightarrow> error option \<times> objective) \<Rightarrow>
   equilibrium \<Rightarrow> objective \<Rightarrow> error option \<times> objective" where
  "FixThetaSFL_build super_build eq self =
     (let idx = arange (L_basis_num_modes eq);
          modes_idx = idx
      in super_build eq
           (self\<lparr>self_idx := Some (map int idx),
                 self_dim_f := Some (length modes_idx),
                 self_target := Some (map (\<lambda>_. 0) modes_idx)\<rparr>))"


text \<open>\<open>FixPsi.build\<close>; \<open>scale_Psi\<close> is the entry \<open>"Psi"\<close> of \<open>compute_scaling_factors\<close>.\<close>

definition FixPsi_build ::
  "(equilibrium \<Rightarrow> real) \<Rightarrow> (equilibrium \<Rightarrow> objective \<Rightarrow> error option \<times> objective) \<Rightarrow>
   equilibrium \<Rightarrow> objective \<Rightarrow> error option \<times> objective" where
  "FixPsi_build scale_Psi super_build eq self =
     (let self1 = self\<lparr>self_dim_f := Some 1\<rparr>;
          self2 = (case self_target self1 of
                     None \<Rightarrow> self1\<lparr>self_target := Some [eq_Psi eq]\<rparr>
                   | Some t \<Rightarrow> self1);
          self3 = (if self_normalize self2
                   then self2\<lparr>self_normalization := Some (scale_Psi eq)\<rparr>
                   else self2)
      in super_build eq self3)"

subsection \<open>\<open>compute\<close>\<close>

text \<open>The classes of the module that have a \<open>compute\<close> method.\<close>

datatype fix_class =
    FixBoundaryR | FixBoundaryZ | FixLambdaGauge | FixThetaSFL | FixAxisR | FixAxisZ
  | FixModeR | FixModeZ | FixSumModesR | FixSumModesZ | FixPressure | FixIota
  | FixCurrent | FixElectronTemperature | FixElectronDensity | FixIonTemperature
  | FixAtomicNumber | FixPsi

text \<open>\<open>jnp.dot(self._A, x)\<close>: the attribute is read first (it does not exist before
  \<open>build\<close>), and \<open>x\<close> may be Python's \<open>None\<close>.\<close>

definition dot_A :: "objective \<Rightarrow> vec option \<Rightarrow> error + vec" where
  "dot_A self x =
     (case self_A self of
        None \<Rightarrow> Inl AttributeError
      | Some M \<Rightarrow> (case x of None \<Rightarrow> Inl TypeError | Some v \<Rightarrow> dot M v))"

text \<open>\<open>x[self._idx]\<close>.\<close>

definition index_idx :: "objective \<Rightarrow> vec \<Rightarrow> error + vec" where
  "index_idx self x =
     (case self_idx self of None \<Rightarrow> Inl AttributeError | Some idx \<Rightarrow> take_idx x idx)"

text \<open>\<open>FixBoundaryR.compute(self, *args, **kwargs)\<close> (and \<open>FixBoundaryZ.compute\<close>, the
  same text): the keyword argument named \<open>self.args[0]\<close> wins over the first positional
  argument.\<close>

definition FixBoundary_compute :: "objective \<Rightarrow> vec list \<Rightarrow> (string \<rightharpoonup> vec) \<Rightarrow> error + vec" where
  "FixBoundary_compute self args kwargs =
     (case self_args self of
        [] \<Rightarrow> Inl IndexError
      | a0 # _ \<Rightarrow>
          (let x = (case args of
                      [] \<Rightarrow> kwargs a0
                    | x0 # _ \<Rightarrow> (case kwargs a0 of None \<Rightarrow> Some x0 | Some v \<Rightarrow> Some v))
           in dot_A self x))"

text \<open>\<open>compute\<close> of each class, called with one positional argument.\<close>

fun compute :: "fix_class \<Rightarrow> objective \<Rightarrow> vec \<Rightarrow> error + vec" where
  "compute FixBoundaryR self x = FixBoundary_compute self [x] Map.empty"
| "compute FixBoundaryZ self x = FixBoundary_compute self [x] Map.empty"
| "compute FixLambdaGauge self L_lmn = dot_A self (Some L_lmn)"
| "compute FixThetaSFL self L_lmn = index_idx self L_lmn"
| "compute FixAxisR self R_lmn = dot_A self (Some R_lmn)"
| "compute FixAxisZ self Z_lmn = dot_A self (Some Z_lmn)"
| "compute FixModeR self R_lmn = index_idx self R_lmn"
| "compute FixModeZ self Z_lmn = index_idx self Z_lmn"
| "compute FixSumModesR self R_lmn = dot_A self (Some R_lmn)"
| "compute FixSumModesZ self Z_lmn = dot_A self (Some Z_lmn)"
| "compute FixPressure self p_l = index_idx self p_l"
| "compute FixIota self i_l = index_idx self i_l"
| "compute FixCurrent self c_l = index_idx self c_l"
| "compute FixElectronTemperature self Te_l = index_idx self Te_l"
| "compute FixElectronDensity self ne_l = index_idx self ne_l"
| "compute FixIonTemperature self Ti_l = index_idx self Ti_l"
| "compute FixAtomicNumber self Zeff_l = index_idx self Zeff_l"
| "compute FixPsi self Psi = Inr Psi"






subsection \<open>\<open>compute\<close> in floating-point arithmetic\<close>

text \<open>The arrays of \<open>jnp\<close> hold IEEE double precision numbers. A real number \<open>x\<close> with
  \<open>2^e \<le> |x| < 2^(e+1)\<close> is rounded to the nearest multiple of \<open>2^(e-52)\<close>, ties to the
  even multiple; overflow and subnormal numbers are left out. \<open>binary_exponent\<close> computes
  \<open>e\<close> from the bit length of the integer part of \<open>|x|\<close>, or of \<open>1/|x|\<close> when \<open>|x| < 1\<close>.\<close>

function bit_length :: "nat \<Rightarrow> nat" where
  "bit_length n = (if n = 0 then 0 else Suc (bit_length (n div 2)))"
  by pat_completeness auto
termination
  by (relation "measure (\<lambda>n. n)") auto

declare bit_length.simps [simp del]

definition binary_exponent :: "real \<Rightarrow> int" where
  "binary_exponent x =
     (if 1 \<le> \<bar>x\<bar> then int (bit_length (nat \<lfloor>\<bar>x\<bar>\<rfloor>)) - 1
      else - int (bit_length (nat (\<lceil>1 / \<bar>x\<bar>\<rceil> - 1))))"




text \<open>\<open>jnp.dot(self._A, x)\<close>, \<open>a * x\<close> and \<open>x + y\<close> with every product and every sum
  rounded by \<open>rnd\<close>, the sums of a row taken from the left. With \<open>rnd\<close> the identity these
  are \<open>dot\<close>, \<open>smul\<close> and \<open>vadd\<close>.\<close>

definition row_dot_rounded :: "(real \<Rightarrow> real) \<Rightarrow> vec \<Rightarrow> vec \<Rightarrow> real" where
  "row_dot_rounded rnd r x = foldl (\<lambda>s p. rnd (s + p)) 0 (map2 (\<lambda>u v. rnd (u * v)) r x)"

definition dot_rounded :: "(real \<Rightarrow> real) \<Rightarrow> matrix \<Rightarrow> vec \<Rightarrow> error + vec" where
  "dot_rounded rnd M x =
     (if length x = m_cols M \<and> well_shaped M
      then Inr (map (\<lambda>r. row_dot_rounded rnd r x) (m_rows M)) else Inl ValueError)"

definition dot_A_rounded :: "(real \<Rightarrow> real) \<Rightarrow> objective \<Rightarrow> vec option \<Rightarrow> error + vec" where
  "dot_A_rounded rnd self x =
     (case self_A self of
        None \<Rightarrow> Inl AttributeError
      | Some M \<Rightarrow> (case x of None \<Rightarrow> Inl TypeError | Some v \<Rightarrow> dot_rounded rnd M v))"

definition FixBoundary_compute_rounded ::
  "(real \<Rightarrow> real) \<Rightarrow> objective \<Rightarrow> vec list \<Rightarrow> (string \<rightharpoonup> vec) \<Rightarrow> error + vec" where
  "FixBoundary_compute_rounded rnd self args kwargs =
     (case self_args self of
        [] \<Rightarrow> Inl IndexError
      | a0 # _ \<Rightarrow>
          (let x = (case args of
                      [] \<Rightarrow> kwargs a0
                    | x0 # _ \<Rightarrow> (case kwargs a0 of None \<Rightarrow> Some x0 | Some v \<Rightarrow> Some v))
           in dot_A_rounded rnd self x))"



section \<open>Optimizer wrappers (\<open>desc/optimize/_desc_wrappers.py\<close>)\<close>

subsection \<open>Python values the wrappers handle\<close>

text \<open>A value of the \<open>options\<close> dictionary is a number or a string; \<open>stoptol\<close> maps its
  keys to numbers; \<open>x_scale\<close> is a string (\<open>'jac'\<close>) or array-like.\<close>

datatype pyval = Num real | Str string

type_synonym options = "string \<rightharpoonup> pyval"

type_synonym stoptol = "string \<rightharpoonup> real"

datatype x_scale = ScaleStr string | ScaleArr vec

text \<open>\<open>jnp.allclose(a, b)\<close> with its default tolerances \<open>rtol = 1e-5\<close>, \<open>atol = 1e-8\<close>.\<close>

definition allclose :: "vec \<Rightarrow> real \<Rightarrow> bool" where
  "allclose a b = list_all (\<lambda>v. \<bar>v - b\<bar> \<le> 1 / 10 ^ 8 + 1 / 10 ^ 5 * \<bar>b\<bar>) a"

text \<open>\<open>not isinstance(x_scale, str) and jnp.allclose(x_scale, 1)\<close>.\<close>

definition unit_scale :: "x_scale \<Rightarrow> bool" where
  "unit_scale xs = (case xs of ScaleStr _ \<Rightarrow> False | ScaleArr a \<Rightarrow> allclose a 1)"

definition setdefault :: "options \<Rightarrow> string \<Rightarrow> pyval \<Rightarrow> options" where
  "setdefault opts k v = (case opts k of None \<Rightarrow> opts(k \<mapsto> v) | Some _ \<Rightarrow> opts)"

text \<open>\<open>stoptol[k]\<close>.\<close>

definition getitem :: "stoptol \<Rightarrow> string \<Rightarrow> error + real" where
  "getitem d k = (case d k of None \<Rightarrow> Inl (KeyError k) | Some v \<Rightarrow> Inr v)"

text \<open>\<open>sub in s\<close> on strings.\<close>

fun str_contains :: "string \<Rightarrow> string \<Rightarrow> bool" where
  "str_contains sub [] = (sub = [])"
| "str_contains sub (c # cs) = (prefix sub (c # cs) \<or> str_contains sub cs)"

text \<open>\<open>s.replace(old, new)\<close>: every occurrence of \<open>old\<close>, found from the left and not
  overlapping, becomes \<open>new\<close>; an empty \<open>old\<close> matches before every character and at
  the end.\<close>

function str_replace :: "string \<Rightarrow> string \<Rightarrow> string \<Rightarrow> string" where
  "str_replace old new [] = (if old = [] then new else [])"
| "str_replace old new (c # cs) =
     (if old = [] then new @ c # str_replace old new cs
      else if prefix old (c # cs) then new @ str_replace old new (drop (length old) (c # cs))
      else c # str_replace old new cs)"
  by pat_completeness auto
termination
  by (relation "measure (\<lambda>(old, new, s). length s)") (auto simp: neq_Nil_conv)

text \<open>The \<open>ObjectiveFunction\<close> the wrappers are given, as the methods they read.\<close>

record objective_function =
  obj_compute :: "vec \<Rightarrow> vec"
  obj_jac :: "vec \<Rightarrow> matrix"
  obj_compute_scalar :: "vec \<Rightarrow> real"
  obj_grad :: "vec \<Rightarrow> vec"
  obj_hess :: "vec \<Rightarrow> matrix"

text \<open>The keyword arguments of the three calls the wrappers make. \<open>args=()\<close> and
  \<open>callback=None\<close>, the same in every call, are left out.\<close>

record lsqtr_args =
  ls_fun :: "vec \<Rightarrow> vec"
  ls_x0 :: vec
  ls_jac :: "vec \<Rightarrow> matrix"
  ls_x_scale :: x_scale
  ls_ftol :: real
  ls_xtol :: real
  ls_gtol :: real
  ls_maxiter :: real
  ls_verbose :: int
  ls_options :: options

datatype hess_arg = HessFun "vec \<Rightarrow> matrix" | HessName string

record fmintr_args =
  fm_fun :: "vec \<Rightarrow> real"
  fm_x0 :: vec
  fm_grad :: "vec \<Rightarrow> vec"
  fm_hess :: hess_arg
  fm_method :: string
  fm_x_scale :: x_scale
  fm_ftol :: real
  fm_xtol :: real
  fm_gtol :: real
  fm_maxiter :: real
  fm_verbose :: int
  fm_options :: options

record sgd_args =
  sg_fun :: "vec \<Rightarrow> real"
  sg_x0 :: vec
  sg_grad :: "vec \<Rightarrow> vec"
  sg_method :: string
  sg_ftol :: real
  sg_xtol :: real
  sg_gtol :: real
  sg_maxiter :: real
  sg_verbose :: int
  sg_options :: options

subsection \<open>The three wrappers\<close>

text \<open>The message of \<open>assert constraint is None\<close>. Assertions are taken to be executed
  (the interpreter does not run with \<open>-O\<close>).\<close>

definition no_constraints_message :: "string \<Rightarrow> string" where
  "no_constraints_message method = ''method '' @ method @ '' doesn't support constraints''"

text \<open>\<open>options = {} if options is None else options\<close>.\<close>

definition options_or_empty :: "options option \<Rightarrow> options" where
  "options_or_empty options = (case options of None \<Rightarrow> Map.empty | Some given \<Rightarrow> given)"

text \<open>The options after that statement and the \<open>setdefault\<close> calls of each wrapper.\<close>

definition least_squares_options :: "x_scale \<Rightarrow> options option \<Rightarrow> options" where
  "least_squares_options x_scale options =
     (let opts = options_or_empty options
      in if unit_scale x_scale
         then setdefault (setdefault opts ''initial_trust_radius'' (Num (1 / 1000)))
                ''max_trust_radius'' (Num 1)
         else opts)"

definition fmin_scalar_options :: "x_scale \<Rightarrow> options option \<Rightarrow> options" where
  "fmin_scalar_options x_scale options =
     (let opts = options_or_empty options
      in if unit_scale x_scale
         then setdefault (setdefault opts ''initial_trust_ratio'' (Num (1 / 1000)))
                ''max_trust_radius'' (Num 1)
         else opts)"

text \<open>\<open>_optimize_desc_least_squares\<close>. The imported \<open>lsqtr\<close> is a parameter; the keyword
  arguments are evaluated in the order they are written, so the first missing key of
  \<open>stoptol\<close> is the one reported.\<close>

definition optimize_desc_least_squares ::
  "(lsqtr_args \<Rightarrow> 'r) \<Rightarrow> objective_function \<Rightarrow> objective_function option \<Rightarrow> vec \<Rightarrow> string \<Rightarrow> x_scale \<Rightarrow>
   int \<Rightarrow> stoptol \<Rightarrow> options option \<Rightarrow> error + 'r" where
  "optimize_desc_least_squares lsqtr objective constraint x0 method x_scale verbose stoptol options =
     (if constraint \<noteq> None then Inl (AssertionError (no_constraints_message method))
      else
        let opts = least_squares_options x_scale options in
        and_then (getitem stoptol ''ftol'') (\<lambda>ftol.
        and_then (getitem stoptol ''xtol'') (\<lambda>xtol.
        and_then (getitem stoptol ''gtol'') (\<lambda>gtol.
        and_then (getitem stoptol ''maxiter'') (\<lambda>maxiter.
          Inr (lsqtr \<lparr>ls_fun = obj_compute objective, ls_x0 = x0, ls_jac = obj_jac objective,
                      ls_x_scale = x_scale, ls_ftol = ftol, ls_xtol = xtol, ls_gtol = gtol,
                      ls_maxiter = maxiter, ls_verbose = verbose, ls_options = opts\<rparr>))))))"

text \<open>\<open>_optimize_desc_fmin_scalar\<close>.\<close>

definition optimize_desc_fmin_scalar ::
  "(fmintr_args \<Rightarrow> 'r) \<Rightarrow> objective_function \<Rightarrow> objective_function option \<Rightarrow> vec \<Rightarrow> string \<Rightarrow> x_scale \<Rightarrow>
   int \<Rightarrow> stoptol \<Rightarrow> options option \<Rightarrow> error + 'r" where
  "optimize_desc_fmin_scalar fmintr objective constraint x0 method x_scale verbose stoptol options =
     (if constraint \<noteq> None then Inl (AssertionError (no_constraints_message method))
      else
        let hess = (if \<not> str_contains ''bfgs'' method then HessFun (obj_hess objective)
                    else HessName ''bfgs'');
            opts = fmin_scalar_options x_scale options in
        and_then (getitem stoptol ''ftol'') (\<lambda>ftol.
        and_then (getitem stoptol ''xtol'') (\<lambda>xtol.
        and_then (getitem stoptol ''gtol'') (\<lambda>gtol.
        and_then (getitem stoptol ''maxiter'') (\<lambda>maxiter.
          Inr (fmintr \<lparr>fm_fun = obj_compute_scalar objective, fm_x0 = x0,
                       fm_grad = obj_grad objective, fm_hess = hess,
                       fm_method = str_replace ''-bfgs'' [] method, fm_x_scale = x_scale,
                       fm_ftol = ftol, fm_xtol = xtol, fm_gtol = gtol, fm_maxiter = maxiter,
                       fm_verbose = verbose, fm_options = opts\<rparr>))))))"

text \<open>\<open>_optimize_desc_stochastic\<close>. \<open>x_scale\<close> is not passed on.\<close>

definition optimize_desc_stochastic ::
  "(sgd_args \<Rightarrow> 'r) \<Rightarrow> objective_function \<Rightarrow> objective_function option \<Rightarrow> vec \<Rightarrow> string \<Rightarrow> x_scale \<Rightarrow>
   int \<Rightarrow> stoptol \<Rightarrow> options option \<Rightarrow> error + 'r" where
  "optimize_desc_stochastic sgd objective constraint x0 method x_scale verbose stoptol options =
     (if constraint \<noteq> None then Inl (AssertionError (no_constraints_message method))
      else
        let opts = options_or_empty options in
        and_then (getitem stoptol ''ftol'') (\<lambda>ftol.
        and_then (getitem stoptol ''xtol'') (\<lambda>xtol.
        and_then (getitem stoptol ''gtol'') (\<lambda>gtol.
        and_then (getitem stoptol ''maxiter'') (\<lambda>maxiter.
          Inr (sgd \<lparr>sg_fun = obj_compute_scalar objective, sg_x0 = x0,
                    sg_grad = obj_grad objective, sg_method = method, sg_ftol = ftol,
                    sg_xtol = xtol, sg_gtol = gtol, sg_maxiter = maxiter,
                    sg_verbose = verbose, sg_options = opts\<rparr>))))))"

subsection \<open>The registry\<close>

text \<open>The three decorated functions of the module.\<close>

datatype driver = Least_squares_driver | Fmin_scalar_driver | Stochastic_driver

text \<open>The record the registry keeps for a method name (the spec's
  \<open>{driver_fn, is_scalar, supports_equality_constraints, supports_inequality_constraints,
  is_stochastic, hessian_spec}\<close>).\<close>

record driver_record =
  driver_fn :: driver
  is_scalar :: bool
  supports_equality_constraints :: bool
  supports_inequality_constraints :: bool
  is_stochastic :: bool
  hessian_spec :: bool

type_synonym registry = "string \<rightharpoonup> driver_record"

text \<open>An argument of \<open>register_optimizer\<close>: one value, or a list with one value per
  name (\<open>name=[...]\<close>, \<open>hessian=[True, True, False, False]\<close>).\<close>

datatype 'a one_or_many = One 'a | Many "'a list"

definition fits :: "nat \<Rightarrow> 'a one_or_many \<Rightarrow> bool" where
  "fits n a = (case a of One _ \<Rightarrow> True | Many vs \<Rightarrow> length vs = n)"

definition at_name :: "'a one_or_many \<Rightarrow> nat \<Rightarrow> 'a" where
  "at_name a i = (case a of One v \<Rightarrow> v | Many vs \<Rightarrow> vs ! i)"

text \<open>
  Modelled from the spec: \<open>register_optimizer\<close> (\<open>desc/optimize/optimizer.py\<close>) is not
  among the source files. By the spec, \<open>register(name_or_names, driver_fn,
  capability_flags)\<close> adds to the process-wide mapping from method name to driver
  record; here every name gets the driver and its own flags, a flag given once
  holding for every name. A list of flags of the wrong length is refused.
\<close>

definition register_optimizer ::
  "string one_or_many \<Rightarrow> bool one_or_many \<Rightarrow> bool one_or_many \<Rightarrow> bool one_or_many \<Rightarrow>
   bool one_or_many \<Rightarrow> bool one_or_many \<Rightarrow> driver \<Rightarrow> registry \<Rightarrow> error + registry" where
  "register_optimizer name scalar equality_constraints inequality_constraints stochastic hessian
     func reg =
     (let names = (case name of One n \<Rightarrow> [n] | Many ns \<Rightarrow> ns);
          k = length names
      in if fits k scalar \<and> fits k equality_constraints \<and> fits k inequality_constraints \<and>
            fits k stochastic \<and> fits k hessian
         then Inr (fold (\<lambda>i r. r(names ! i \<mapsto>
                      \<lparr>driver_fn = func, is_scalar = at_name scalar i,
                       supports_equality_constraints = at_name equality_constraints i,
                       supports_inequality_constraints = at_name inequality_constraints i,
                       is_stochastic = at_name stochastic i,
                       hessian_spec = at_name hessian i\<rparr>))
                    [0..<k] reg)
         else Inl ValueError)"

text \<open>
  Modelled from the spec: \<open>resolve(name) -> driver_record\<close> fails with
  \<open>UnknownMethodError\<close> if the name is absent, and performs no other validation.
\<close>

definition resolve :: "registry \<Rightarrow> string \<Rightarrow> error + driver_record" where
  "resolve reg name = (case reg name of None \<Rightarrow> Inl (UnknownMethodError name) | Some r \<Rightarrow> Inr r)"

text \<open>The registry after the module is imported: its three decorators, in order.\<close>

definition optimizers :: "error + registry" where
  "optimizers =
     and_then
       (and_then
          (register_optimizer (One ''lsq-exact'') (One False) (One False) (One False)
             (One False) (One False) Least_squares_driver Map.empty)
          (register_optimizer (Many [''dogleg'', ''subspace'', ''dogleg-bfgs'', ''subspace-bfgs''])
             (One True) (One False) (One False) (One False)
             (Many [True, True, False, False]) Fmin_scalar_driver))
       (register_optimizer (One ''sgd'') (One True) (One False) (One False) (One True)
          (One False) Stochastic_driver)"

definition registered_names :: "string list" where
  "registered_names =
     [''lsq-exact'', ''dogleg'', ''subspace'', ''dogleg-bfgs'', ''subspace-bfgs'', ''sgd'']"

text \<open>Calling a registered driver: the imported solvers are the fields of \<open>engines\<close>.\<close>

record 'r engines =
  lsqtr_fn :: "lsqtr_args \<Rightarrow> 'r"
  fmintr_fn :: "fmintr_args \<Rightarrow> 'r"
  sgd_fn :: "sgd_args \<Rightarrow> 'r"

fun call_driver ::
  "'r engines \<Rightarrow> driver \<Rightarrow> objective_function \<Rightarrow> objective_function option \<Rightarrow> vec \<Rightarrow> string \<Rightarrow> x_scale \<Rightarrow>
   int \<Rightarrow> stoptol \<Rightarrow> options option \<Rightarrow> error + 'r" where
  "call_driver E Least_squares_driver objective constraint x0 method x_scale verbose stoptol options =
     optimize_desc_least_squares (lsqtr_fn E) objective constraint x0 method x_scale verbose
       stoptol options"
| "call_driver E Fmin_scalar_driver objective constraint x0 method x_scale verbose stoptol options =
     optimize_desc_fmin_scalar (fmintr_fn E) objective constraint x0 method x_scale verbose
       stoptol options"
| "call_driver E Stochastic_driver objective constraint x0 method x_scale verbose stoptol options =
     optimize_desc_stochastic (sgd_fn E) objective constraint x0 method x_scale verbose
       stoptol options"

section \<open>The solvers behind the wrappers\<close>

text \<open>
  \<open>lsqtr\<close>, \<open>fmintr\<close> and \<open>sgd\<close> are imported by the wrappers from modules that are not
  among the source files. Where a property depends on what a solver does, the solver is
  modelled from the spec (sections 3, 4.3, 4.5 and 7).
\<close>

subsection \<open>Results\<close>

text \<open>The terminal states of the spec's state machine
  \<open>INIT \<rightarrow> ITERATE \<rightarrow> {CONVERGED | MAX_ITER | STALLED}\<close>.\<close>

datatype status = CONVERGED | MAX_ITER | STALLED

text \<open>The spec's \<open>OptimizeResult\<close>: final \<open>x\<close>, final function value, gradient norm,
  success flag, termination message, iteration and evaluation counts.\<close>

record optimize_result =
  res_x :: vec
  res_fun :: real
  res_grad_norm :: real
  res_success :: bool
  res_message :: string
  res_status :: status
  res_nit :: nat
  res_nfev :: nat
  res_njev :: nat

text \<open>
  Modelled from the spec: the termination message. The spec asks for a descriptive
  message and gives no wording; only \<open>CONVERGED\<close> is a success.
\<close>

definition message :: "status \<Rightarrow> string" where
  "message s =
     (case s of
        CONVERGED \<Rightarrow> ''A convergence test is satisfied.''
      | MAX_ITER \<Rightarrow> ''The maximum number of iterations or evaluations is reached.''
      | STALLED \<Rightarrow> ''No acceptable step was found within the retries allowed.'')"

subsection \<open>Norms and ratios\<close>

definition vsub :: "vec \<Rightarrow> vec \<Rightarrow> vec" where
  "vsub x y = map2 (-) x y"

definition sq_norm :: "vec \<Rightarrow> real" where
  "sq_norm x = sum_list (map (\<lambda>v. v * v) x)"

definition norm2 :: "vec \<Rightarrow> real" where
  "norm2 x = sqrt (sq_norm x)"

definition norm_inf :: "vec \<Rightarrow> real" where
  "norm_inf x = foldr (\<lambda>v m. max \<bar>v\<bar> m) x 0"

text \<open>\<open>g = J\<^sup>T f\<close>.\<close>

definition jac_transpose_dot :: "matrix \<Rightarrow> vec \<Rightarrow> vec" where
  "jac_transpose_dot J f =
     map (\<lambda>j. sum_list (map2 (\<lambda>r fi. r ! j * fi) (m_rows J) f)) [0..<m_cols J]"

text \<open>The tests \<open>a / b < c\<close> and \<open>a / b > c\<close>. HOL's \<open>a / 0\<close> is 0; a floating-point
  quotient by zero is infinite or not a number, and the tests below answer as it does.\<close>

definition ratio_less :: "real \<Rightarrow> real \<Rightarrow> real \<Rightarrow> bool" where
  "ratio_less a b c = (if b = 0 then a < 0 else a / b < c)"

definition ratio_greater :: "real \<Rightarrow> real \<Rightarrow> real \<Rightarrow> bool" where
  "ratio_greater a b c = (if b = 0 then 0 < a else c < a / b)"

subsection \<open>The least-squares trust-region driver\<close>

text \<open>The spec's \<open>StepResult\<close> and \<open>TrustRegionState\<close>.\<close>

record step_result =
  step_p :: vec
  predicted_reduction :: real
  hits_boundary :: bool

record tr_state =
  tr_x :: vec
  tr_radius :: real
  tr_f :: vec
  tr_J :: matrix
  tr_iteration :: nat
  tr_nfev :: nat
  tr_njev :: nat

text \<open>
  What section 4.3 of the spec leaves open, as parameters of the model: the step solver
  of section 4.2; the evaluation budgets \<open>(max_nfev, max_njev)\<close> the driver works with,
  which it can take only from the arguments it is called with; the bound on the retries
  of a rejected step; the initial and the maximal trust radius when the options name
  none.
\<close>

record lsqtr_open =
  step_solver :: "matrix \<Rightarrow> vec \<Rightarrow> real \<Rightarrow> step_result"
  eval_budget :: "lsqtr_args \<Rightarrow> nat \<times> nat"
  max_retries :: nat
  default_radius :: "lsqtr_args \<Rightarrow> real \<times> real"

definition option_num :: "options \<Rightarrow> string \<Rightarrow> real \<Rightarrow> real" where
  "option_num opts k d = (case opts k of Some (Num r) \<Rightarrow> r | _ \<Rightarrow> d)"

definition lsqtr_finish :: "status \<Rightarrow> tr_state \<Rightarrow> optimize_result" where
  "lsqtr_finish s st =
     \<lparr>res_x = tr_x st, res_fun = sq_norm (tr_f st) / 2,
      res_grad_norm = norm_inf (jac_transpose_dot (tr_J st) (tr_f st)),
      res_success = (s = CONVERGED), res_message = message s, res_status = s,
      res_nit = tr_iteration st, res_nfev = tr_nfev st, res_njev = tr_njev st\<rparr>"

datatype step_outcome = Accepted tr_state vec real | Rejected tr_state

text \<open>
  Modelled from the spec: one outer iteration's search for a step (section 4.3). The
  step solver gives a candidate \<open>p\<close>; the actual reduction
  \<open>ar = ||f(x)||\<^sup>2 - ||f(x+p)||\<^sup>2\<close> against the predicted reduction \<open>pr\<close> gives
  \<open>\<rho> = ar / pr\<close>; \<open>\<rho> < 0.25\<close> shrinks the radius to \<open>0.25 ||p||\<close>, \<open>\<rho> > 0.75\<close> with the
  step at the boundary grows it to \<open>min(2\<Delta>, \<Delta>_max)\<close>; the step is accepted only if
  \<open>ar > 0\<close>, otherwise the search retries with the new radius, a bounded number of times.
\<close>

fun try_step :: "lsqtr_open \<Rightarrow> lsqtr_args \<Rightarrow> real \<Rightarrow> nat \<Rightarrow> tr_state \<Rightarrow> step_outcome" where
  "try_step impl a radius_max 0 st = Rejected st"
| "try_step impl a radius_max (Suc retries) st =
     (let s = step_solver impl (tr_J st) (tr_f st) (tr_radius st);
          x_new = vadd (tr_x st) (step_p s);
          f_new = ls_fun a x_new;
          ar = sq_norm (tr_f st) - sq_norm f_new;
          pr = predicted_reduction s;
          radius = (if ratio_less ar pr (1 / 4) then 1 / 4 * norm2 (step_p s)
                    else if ratio_greater ar pr (3 / 4) \<and> hits_boundary s
                    then min (2 * tr_radius st) radius_max
                    else tr_radius st);
          st' = st\<lparr>tr_radius := radius, tr_nfev := Suc (tr_nfev st)\<rparr>
      in if 0 < ar
         then Accepted (st'\<lparr>tr_x := x_new, tr_f := f_new, tr_J := ls_jac a x_new,
                            tr_njev := Suc (tr_njev st)\<rparr>) (step_p s) ar
         else try_step impl a radius_max retries st')"

text \<open>
  Modelled from the spec: the outer loop (section 4.3). \<open>||g||\<^sub>\<infinity> < gtol\<close> with
  \<open>g = J\<^sup>T f\<close> is \<open>CONVERGED\<close>; \<open>iteration \<ge> maxiter\<close>, \<open>nfev \<ge> max_nfev\<close> or
  \<open>njev \<ge> max_njev\<close> is \<open>MAX_ITER\<close>; a step search that runs out of retries is
  \<open>STALLED\<close>; after an accepted step, a relative step size below \<open>xtol\<close> or a relative
  cost decrease below \<open>ftol\<close> is \<open>CONVERGED\<close>.
\<close>

function lsqtr_iterate :: "lsqtr_open \<Rightarrow> lsqtr_args \<Rightarrow> real \<Rightarrow> tr_state \<Rightarrow> optimize_result" where
  "lsqtr_iterate impl a radius_max st =
     (if norm_inf (jac_transpose_dot (tr_J st) (tr_f st)) < ls_gtol a
      then lsqtr_finish CONVERGED st
      else if ls_maxiter a \<le> real (tr_iteration st) \<or>
              fst (eval_budget impl a) \<le> tr_nfev st \<or> snd (eval_budget impl a) \<le> tr_njev st
      then lsqtr_finish MAX_ITER st
      else (case try_step impl a radius_max (max_retries impl) st of
              Rejected st' \<Rightarrow> lsqtr_finish STALLED st'
            | Accepted st' p ar \<Rightarrow>
                if ratio_less (norm2 p) (norm2 (tr_x st)) (ls_xtol a) \<or>
                   ratio_less \<bar>ar\<bar> (sq_norm (tr_f st)) (ls_ftol a)
                then lsqtr_finish CONVERGED (st'\<lparr>tr_iteration := Suc (tr_iteration st)\<rparr>)
                else lsqtr_iterate impl a radius_max (st'\<lparr>tr_iteration := Suc (tr_iteration st)\<rparr>)))"
  by pat_completeness auto
termination
proof (relation "measure (\<lambda>(impl, a, radius_max, st). nat \<lceil>ls_maxiter a\<rceil> - tr_iteration st)")
  show "wf (measure (\<lambda>(impl, a, radius_max, st). nat \<lceil>ls_maxiter a\<rceil> - tr_iteration st))"
    by simp
next
  fix impl :: lsqtr_open and a :: lsqtr_args and radius_max :: real and st st' :: tr_state
  assume "\<not> (ls_maxiter a \<le> real (tr_iteration st) \<or>
              fst (eval_budget impl a) \<le> tr_nfev st \<or> snd (eval_budget impl a) \<le> tr_njev st)"
  then have "real (tr_iteration st) < ls_maxiter a" by simp
  then have "tr_iteration st < nat \<lceil>ls_maxiter a\<rceil>" by linarith
  then show "((impl, a, radius_max, st'\<lparr>tr_iteration := Suc (tr_iteration st)\<rparr>), impl, a, radius_max, st)
        \<in> measure (\<lambda>(impl, a, radius_max, st). nat \<lceil>ls_maxiter a\<rceil> - tr_iteration st)"
    by simp
qed

declare lsqtr_iterate.simps [simp del]

text \<open>
  Modelled from the spec: \<open>lsqtr\<close>, called with the keyword arguments the wrapper
  passes. \<open>INIT\<close> evaluates \<open>f\<close> and \<open>J\<close> at \<open>x0\<close> and takes the trust radii from the
  options \<open>initial_trust_radius\<close> and \<open>max_trust_radius\<close>.
\<close>

definition lsqtr :: "lsqtr_open \<Rightarrow> lsqtr_args \<Rightarrow> optimize_result" where
  "lsqtr impl a =
     lsqtr_iterate impl a
       (option_num (ls_options a) ''max_trust_radius'' (snd (default_radius impl a)))
       \<lparr>tr_x = ls_x0 a,
        tr_radius = option_num (ls_options a) ''initial_trust_radius'' (fst (default_radius impl a)),
        tr_f = ls_fun a (ls_x0 a), tr_J = ls_jac a (ls_x0 a),
        tr_iteration = 0, tr_nfev = 1, tr_njev = 1\<rparr>"

subsection \<open>The stochastic gradient driver\<close>

definition sgd_finish :: "sgd_args \<Rightarrow> status \<Rightarrow> nat \<Rightarrow> vec \<Rightarrow> optimize_result" where
  "sgd_finish a s k x =
     \<lparr>res_x = x, res_fun = sg_fun a x, res_grad_norm = norm_inf (sg_grad a x),
      res_success = (s = CONVERGED), res_message = message s, res_status = s,
      res_nit = k, res_nfev = Suc k, res_njev = Suc k\<rparr>"

text \<open>
  Modelled from the spec: the loop of \<open>sgd\<close> (section 4.5), a single loop with no
  trust region that runs a fixed number of iterations or until \<open>xtol\<close>/\<open>ftol\<close> is
  satisfied, with the step \<open>x \<leftarrow> x - \<eta> g(x)\<close>. The learning rate \<open>\<eta>\<close>, constant or
  decaying, is a parameter: a function of the options the driver is given and of the
  iteration.
\<close>

function sgd_iterate :: "(options \<Rightarrow> nat \<Rightarrow> real) \<Rightarrow> sgd_args \<Rightarrow> nat \<Rightarrow> vec \<Rightarrow> optimize_result" where
  "sgd_iterate rate a k x =
     (if sg_maxiter a \<le> real k then sgd_finish a MAX_ITER k x
      else
        let x_new = vsub x (smul (rate (sg_options a) k) (sg_grad a x))
        in if ratio_less (norm2 (vsub x_new x)) (norm2 x) (sg_xtol a) \<or>
              ratio_less \<bar>sg_fun a x - sg_fun a x_new\<bar> \<bar>sg_fun a x\<bar> (sg_ftol a)
           then sgd_finish a CONVERGED (Suc k) x_new
           else sgd_iterate rate a (Suc k) x_new)"
  by pat_completeness auto
termination
proof (relation "measure (\<lambda>(rate, a, k, x). nat \<lceil>sg_maxiter a\<rceil> - k)")
  show "wf (measure (\<lambda>(rate, a, k, x). nat \<lceil>sg_maxiter a\<rceil> - k))"
    by simp
next
  fix rate :: "options \<Rightarrow> nat \<Rightarrow> real" and a :: sgd_args and k :: nat and x x_new :: vec
  assume "\<not> sg_maxiter a \<le> real k"
  then have "k < nat \<lceil>sg_maxiter a\<rceil>" by linarith
  then show "((rate, a, Suc k, x_new), rate, a, k, x)
        \<in> measure (\<lambda>(rate, a, k, x). nat \<lceil>sg_maxiter a\<rceil> - k)"
    by simp
qed

declare sgd_iterate.simps [simp del]

definition sgd :: "(options \<Rightarrow> nat \<Rightarrow> real) \<Rightarrow> sgd_args \<Rightarrow> optimize_result" where
  "sgd rate a = sgd_iterate rate a 0 (sg_x0 a)"

section \<open>Backend\<close>

text \<open>
  Modelled from the spec: \<open>desc.backend.sign\<close> is not among the source files; only its
  test \<open>test_sign\<close> is, which documents it as the sign function modified to return +1 for
  \<open>x = 0\<close>. The model is the usual sign (\<open>sgn\<close>) with that modification.
\<close>

definition sign :: "real \<Rightarrow> real" where
  "sign x = (if x = 0 then 1 else sgn x)"

text \<open>\<open>test_sign\<close> of \<open>tests/test_backend.py\<close>: its three assertions.\<close>

definition test_sign :: bool where
  "test_sign = (sign 4 = 1 \<and> sign 0 = 1 \<and> sign (- 10.3) = - 1)"

section \<open>Reference definitions and example data\<close>

text \<open>Removing a suffix, as the words "with the suffix removed" say it.\<close>

definition strip_suffix :: "string \<Rightarrow> string \<Rightarrow> string" where
  "strip_suffix suf s = (if suffix suf s then take (length s - length suf) s else s)"

text \<open>The registry the three decorators of the module leave behind, written out.\<close>

definition module_registry :: registry where
  "module_registry =
     [''lsq-exact'' \<mapsto> \<lparr>driver_fn = Least_squares_driver, is_scalar = False,
         supports_equality_constraints = False, supports_inequality_constraints = False,
         is_stochastic = False, hessian_spec = False\<rparr>,
      ''dogleg'' \<mapsto> \<lparr>driver_fn = Fmin_scalar_driver, is_scalar = True,
         supports_equality_constraints = False, supports_inequality_constraints = False,
         is_stochastic = False, hessian_spec = True\<rparr>,
      ''subspace'' \<mapsto> \<lparr>driver_fn = Fmin_scalar_driver, is_scalar = True,
         supports_equality_constraints = False, supports_inequality_constraints = False,
         is_stochastic = False, hessian_spec = True\<rparr>,
      ''dogleg-bfgs'' \<mapsto> \<lparr>driver_fn = Fmin_scalar_driver, is_scalar = True,
         supports_equality_constraints = False, supports_inequality_constraints = False,
         is_stochastic = False, hessian_spec = False\<rparr>,
      ''subspace-bfgs'' \<mapsto> \<lparr>driver_fn = Fmin_scalar_driver, is_scalar = True,
         supports_equality_constraints = False, supports_inequality_constraints = False,
         is_stochastic = False, hessian_spec = False\<rparr>,
      ''sgd'' \<mapsto> \<lparr>driver_fn = Stochastic_driver, is_scalar = True,
         supports_equality_constraints = False, supports_inequality_constraints = False,
         is_stochastic = True, hessian_spec = False\<rparr>]"

text \<open>An equilibrium with two boundary modes and three modes of the \<open>L\<close> basis, and base
  class and helper functions that do nothing, for the examples.\<close>

definition example_eq :: equilibrium where
  "example_eq =
     \<lparr>surface_R_basis_modes = [(0, 0, 0), (0, 1, 0)], surface_R_lmn = [10, 1],
      surface_rho = 1, R_basis_modes = [(0, 0, 0), (1, 1, 0), (2, 0, 0)],
      bdry_mode = ''lcfs'', L_basis_num_modes = 3, eq_Psi = 1\<rparr>"

definition plain_build :: "equilibrium \<Rightarrow> objective \<Rightarrow> error option \<times> objective" where
  "plain_build eq self = (None, self)"





text \<open>The residual \<open>f(x) = x - 1\<close> in every coordinate, with its derivatives.\<close>

definition shifted_identity :: objective_function where
  "shifted_identity =
     \<lparr>obj_compute = (\<lambda>x. map (\<lambda>v. v - 1) x),
      obj_jac = (\<lambda>x. eye_rows (length x) (arange (length x))),
      obj_compute_scalar = (\<lambda>x. sq_norm (map (\<lambda>v. v - 1) x)),
      obj_grad = (\<lambda>x. map (\<lambda>v. 2 * (v - 1)) x),
      obj_hess = (\<lambda>x. \<lparr>m_cols = length x,
                         m_rows = map (\<lambda>i. map (\<lambda>k. if k = i then 2 else 0) [0..<length x])
                                    [0..<length x]\<rparr>)\<rparr>"

text \<open>Stopping tolerances with every documented key, the evaluation budgets set to 1.\<close>

definition example_stoptol :: stoptol where
  "example_stoptol =
     [''xtol'' \<mapsto> 1 / 10 ^ 6, ''ftol'' \<mapsto> 1 / 10 ^ 6, ''gtol'' \<mapsto> 1 / 10 ^ 6,
      ''maxiter'' \<mapsto> 100, ''max_nfev'' \<mapsto> 1, ''max_njev'' \<mapsto> 1,
      ''max_ngev'' \<mapsto> 1, ''max_nhev'' \<mapsto> 1]"

text \<open>The exact minimiser of the model in one dimension: the Gauss-Newton step, cut to
  the trust radius.\<close>

definition newton_step_1d :: "matrix \<Rightarrow> vec \<Rightarrow> real \<Rightarrow> step_result" where
  "newton_step_1d J f radius =
     (case (m_rows J, f) of
        ([[j]], [v]) \<Rightarrow>
          (let p = - v / j;
               q = (if \<bar>p\<bar> \<le> radius then p else if p < 0 then - radius else radius)
           in \<lparr>step_p = [q], predicted_reduction = v * v - (v + j * q) * (v + j * q),
               hits_boundary = (radius \<le> \<bar>p\<bar>)\<rparr>)
      | _ \<Rightarrow> \<lparr>step_p = map (\<lambda>_. 0) [0..<m_cols J], predicted_reduction = 0,
               hits_boundary = False\<rparr>)"

definition example_lsqtr :: lsqtr_open where
  "example_lsqtr =
     \<lparr>step_solver = newton_step_1d, eval_budget = (\<lambda>a. (1000, 1000)), max_retries = 10,
      default_radius = (\<lambda>a. (1, 1000))\<rparr>"

text \<open>The call that \<open>_optimize_desc_least_squares\<close> makes for \<open>shifted_identity\<close> from
  \<open>x0 = [0]\<close> with \<open>x_scale = 'jac'\<close>, \<open>example_stoptol\<close> and no options.\<close>

definition example_call :: lsqtr_args where
  "example_call =
     \<lparr>ls_fun = obj_compute shifted_identity, ls_x0 = [0], ls_jac = obj_jac shifted_identity,
      ls_x_scale = ScaleStr ''jac'', ls_ftol = 1 / 10 ^ 6, ls_xtol = 1 / 10 ^ 6,
      ls_gtol = 1 / 10 ^ 6, ls_maxiter = 100, ls_verbose = 0, ls_options = Map.empty\<rparr>"

definition unit_matrix :: matrix where
  "unit_matrix = \<lparr>m_cols = 1, m_rows = [[1]]\<rparr>"

text \<open>A learning rate read from an option, constant over the iterations.\<close>

definition example_rate :: "options \<Rightarrow> nat \<Rightarrow> real" where
  "example_rate opts k = option_num opts ''learning_rate'' (1 / 100)"

text \<open>Solvers that only report which of them was called.\<close>

definition recording_engines :: "string engines" where
  "recording_engines =
     \<lparr>lsqtr_fn = (\<lambda>a. ''lsqtr''), fmintr_fn = (\<lambda>a. ''fmintr''), sgd_fn = (\<lambda>a. ''sgd'')\<rparr>"

section \<open>Properties of the linear constraint objectives\<close>

subsection \<open>Linearity of \<open>jnp.dot(A, x)\<close>\<close>





subsection \<open>Linearity of \<open>x[idx]\<close>, and its matrix\<close>









subsection \<open>\<open>compute\<close>\<close>









text \<open>The other two shapes of \<open>compute\<close>, on built objects: after \<open>FixThetaSFL.build\<close> the
  method is the identity on vectors of the length of the \<open>L\<close> basis, and \<open>FixPsi.compute\<close>
  returns its argument.\<close>

lemma take_idx_arange: "take_idx x (map int (arange (length x))) = Inr x"
proof -
  have "take_idx (pre @ x) (map int [length pre..<length pre + length x]) = Inr x" for pre :: vec
  proof (induction x arbitrary: pre)
    case Nil
    then show ?case by simp
  next
    case (Cons v x)
    have up: "[length pre..<length pre + length (v # x)] =
              length pre # [length (pre @ [v])..<length (pre @ [v]) + length x]"
      by (simp add: upt_rec)
    have "get_item (pre @ v # x) (int (length pre)) = Inr v"
      by (simp add: get_item_def Let_def)
    moreover have "take_idx ((pre @ [v]) @ x)
        (map int [length (pre @ [v])..<length (pre @ [v]) + length x]) = Inr x"
      by (rule Cons.IH)
    ultimately show ?case unfolding up by simp
  qed
  from this[of "[]"] show ?thesis by (simp add: arange_def)
qed

lemma FixThetaSFL_compute_after_build:
  assumes "length x = L_basis_num_modes eq"
  shows "compute FixThetaSFL (snd (FixThetaSFL_build plain_build eq self)) x = Inr x"
  using assms take_idx_arange[of x]
  by (simp add: FixThetaSFL_build_def plain_build_def index_idx_def Let_def)

lemma FixPsi_compute_after_build:
  "compute FixPsi (snd (FixPsi_build scale_Psi plain_build eq self)) x = Inr x"
  by simp

subsection \<open>\<open>build\<close>\<close>

text \<open>
  C8. After \<open>FixThetaSFL.build\<close> the target is the all-zero vector whose length is the
  number of modes of the \<open>L\<close> basis, whatever target the constructor was given: that is
  the target \<open>build\<close> hands to the base class \<open>build\<close>, and the final target if the base
  class \<open>build\<close> leaves the target as it finds it.
\<close>

theorem FixThetaSFL_build_target:
  "(\<exists>self'. FixThetaSFL_build super_build eq self = super_build eq self' \<and>
       self_target self' = Some (replicate (L_basis_num_modes eq) 0)) \<and>
   FixThetaSFL_build super_build eq (self\<lparr>self_target := t\<rparr>) =
     FixThetaSFL_build super_build eq self \<and>
   ((\<forall>s. self_target (snd (super_build eq s)) = self_target s) \<longrightarrow>
      self_target (snd (FixThetaSFL_build super_build eq (FixThetaSFL_init target))) =
        Some (replicate (L_basis_num_modes eq) 0))"
proof -
  have zeros: "map (\<lambda>_. 0::real) [0..<n] = replicate n 0" for n
    by (simp add: map_replicate_const)
  let ?built = "self\<lparr>self_idx := Some (map int (arange (L_basis_num_modes eq))),
                     self_dim_f := Some (length (arange (L_basis_num_modes eq))),
                     self_target := Some (map (\<lambda>_. 0) (arange (L_basis_num_modes eq)))\<rparr>"
  have "FixThetaSFL_build super_build eq self = super_build eq ?built \<and>
        self_target ?built = Some (replicate (L_basis_num_modes eq) 0)"
    by (simp add: FixThetaSFL_build_def Let_def zeros arange_def)
  then have first: "\<exists>self'. FixThetaSFL_build super_build eq self = super_build eq self' \<and>
       self_target self' = Some (replicate (L_basis_num_modes eq) 0)"
    by blast
  have second: "FixThetaSFL_build super_build eq (self\<lparr>self_target := t\<rparr>) =
     FixThetaSFL_build super_build eq self"
    by (simp add: FixThetaSFL_build_def Let_def)
  have third: "(\<forall>s. self_target (snd (super_build eq s)) = self_target s) \<longrightarrow>
      self_target (snd (FixThetaSFL_build super_build eq (FixThetaSFL_init target))) =
        Some (replicate (L_basis_num_modes eq) 0)"
    by (simp add: FixThetaSFL_build_def Let_def zeros arange_def)
  show ?thesis using first second third by blast
qed

theorem FixThetaSFL_build_target_witness:
  "(\<forall>s. self_target (snd (plain_build example_eq s)) = self_target s) \<and>
   self_target (snd (FixThetaSFL_build plain_build example_eq (FixThetaSFL_init (Some [5])))) =
     Some [0, 0, 0]"
proof -
  have keeps: "\<forall>s. self_target (snd (plain_build example_eq s)) = self_target s"
    by (simp add: plain_build_def)
  have n: "replicate (L_basis_num_modes example_eq) (0::real) = [0, 0, 0]"
    by (simp add: example_eq_def numeral_3_eq_3)
  show ?thesis
    using FixThetaSFL_build_target[of plain_build example_eq "FixThetaSFL_init None" None "Some [5]"]
      keeps n
    by simp
qed

text \<open>
  C9. \<open>FixBoundaryR.build\<close> raises \<open>RuntimeError\<close> whenever a target was given and
  \<open>modes\<close> is \<open>True\<close> or \<open>False\<close>. The error comes before the constraint matrix is
  built: the object is left with \<open>_dim_f\<close> set and nothing else changed, \<open>_A\<close> included,
  whatever the functions that fill the matrix are.
\<close>

theorem FixBoundaryR_build_target_without_modes:
  assumes "self_target self = Some t" and "self_modes self = ModesBool b"
  shows "FixBoundaryR_build zernike_radial scale_a super_build eq self =
           (Some (RuntimeError no_modes_message),
            self\<lparr>self_dim_f := Some (if b then length (surface_R_basis_modes eq) else 0)\<rparr>) \<and>
         self_A (snd (FixBoundaryR_build zernike_radial scale_a super_build eq self)) = self_A self"
  using assms
  by (cases b) (simp_all add: FixBoundaryR_build_def select_modes_def rearrange_target_def arange_def)

theorem FixBoundaryR_build_target_without_modes_witness:
  "self_target (FixBoundaryR_init (Some [1, 2]) True False (ModesBool True) None) = Some [1, 2] \<and>
   self_modes (FixBoundaryR_init (Some [1, 2]) True False (ModesBool True) None) = ModesBool True \<and>
   fst (FixBoundaryR_build (\<lambda>rho l m. 1) (\<lambda>eq. 1) plain_build example_eq
          (FixBoundaryR_init (Some [1, 2]) True False (ModesBool True) None)) =
     Some (RuntimeError no_modes_message) \<and>
   self_A (snd (FixBoundaryR_build (\<lambda>rho l m. 1) (\<lambda>eq. 1) plain_build example_eq
          (FixBoundaryR_init (Some [1, 2]) True False (ModesBool True) None))) = None"
proof -
  have t: "self_target (FixBoundaryR_init (Some [1, 2]) True False (ModesBool True) None) = Some [1, 2]"
    and m: "self_modes (FixBoundaryR_init (Some [1, 2]) True False (ModesBool True) None) = ModesBool True"
    and a: "self_A (FixBoundaryR_init (Some [1, 2]) True False (ModesBool True) None) = None"
    by (simp_all add: FixBoundaryR_init_def)
  show ?thesis
    using FixBoundaryR_build_target_without_modes[OF t m, of "\<lambda>rho l m. 1" "\<lambda>eq. 1" plain_build example_eq]
      t m a
    by simp
qed

text \<open>Without a target and with all modes, the same build goes through and the matrix is
  the identity: the error above is not how every build ends.\<close>

lemma FixBoundaryR_build_all_modes:
  "FixBoundaryR_build zernike_radial scale_a plain_build example_eq
     (FixBoundaryR_init None False False (ModesBool True) None) =
   (None, (FixBoundaryR_init None False False (ModesBool True) None)
            \<lparr>self_target := Some [10, 1], self_dim_f := Some 2,
             self_A := Some \<lparr>m_cols = 2, m_rows = [[1, 0], [0, 1]]\<rparr>\<rparr>)"
  by (simp add: FixBoundaryR_build_def select_modes_def rearrange_target_def arange_def
      FixBoundaryR_init_def example_eq_def eye_rows_def unit_row_def get_item_def plain_build_def
      upt_rec numeral_2_eq_2)

subsection \<open>\<open>compute\<close> on built objects\<close>
























subsection \<open>\<open>compute\<close> in floating-point arithmetic\<close>

text \<open>The exponent that \<open>binary_exponent\<close> computes is the one of the binade of \<open>x\<close>.\<close>

lemma bit_length_bounds: "0 < n \<Longrightarrow> 2 ^ (bit_length n - 1) \<le> n \<and> n < 2 ^ bit_length n"
proof (induction n rule: bit_length.induct)
  case (1 n)
  show ?case
  proof (cases "n div 2 = 0")
    case True
    then have "n = 1" using "1.prems" by auto
    then show ?thesis by (simp add: bit_length.simps)
  next
    case False
    then have ih: "2 ^ (bit_length (n div 2) - 1) \<le> n div 2 \<and> n div 2 < 2 ^ bit_length (n div 2)"
      using "1.IH" "1.prems" by simp
    have pos: "0 < bit_length (n div 2)"
      using False by (subst bit_length.simps) simp
    have eq: "bit_length n = Suc (bit_length (n div 2))"
      using "1.prems" by (subst bit_length.simps) simp
    have "(2::nat) ^ (bit_length n - 1) = 2 ^ bit_length (n div 2)"
      using eq by simp
    moreover have "(2::nat) ^ bit_length (n div 2) = 2 * 2 ^ (bit_length (n div 2) - 1)"
      using pos by (cases "bit_length (n div 2)") simp_all
    moreover have "2 * 2 ^ (bit_length (n div 2) - 1) \<le> 2 * (n div 2)" using ih by simp
    moreover have "2 * (n div 2) \<le> n" by simp
    ultimately have low: "2 ^ (bit_length n - 1) \<le> n" by linarith
    have "n < 2 * (n div 2 + 1)" by presburger
    moreover have "2 * (n div 2 + 1) \<le> 2 * 2 ^ bit_length (n div 2)" using ih by simp
    ultimately have "n < 2 ^ bit_length n" using eq by simp
    then show ?thesis using low by simp
  qed
qed

lemma binary_exponent_bounds:
  assumes "x \<noteq> 0"
  shows "2 powr real_of_int (binary_exponent x) \<le> \<bar>x\<bar> \<and>
         \<bar>x\<bar> < 2 powr real_of_int (binary_exponent x + 1)"
proof (cases "1 \<le> \<bar>x\<bar>")
  case True
  define n where "n = nat \<lfloor>\<bar>x\<bar>\<rfloor>"
  have n: "0 < n" "real n \<le> \<bar>x\<bar>" "\<bar>x\<bar> < real n + 1"
    using True unfolding n_def by linarith+
  have e: "binary_exponent x = int (bit_length n) - 1"
    using True by (simp add: binary_exponent_def n_def)
  from bit_length_bounds[OF n(1)] have b: "2 ^ (bit_length n - 1) \<le> n" "n < 2 ^ bit_length n"
    by auto
  have pos: "0 < bit_length n" using n(1) by (subst bit_length.simps) simp
  have p1: "2 powr real_of_int (binary_exponent x) = 2 ^ (bit_length n - 1)"
    using pos e by (simp add: powr_realpow[symmetric] of_nat_diff)
  have low: "(2::real) ^ (bit_length n - 1) \<le> real n"
  proof -
    have "real (2 ^ (bit_length n - 1)) \<le> real n" using b(1) by (simp only: of_nat_le_iff)
    then show ?thesis by simp
  qed
  have p2: "2 powr real_of_int (binary_exponent x + 1) = 2 ^ bit_length n"
    using e by (simp add: powr_realpow[symmetric])
  have up: "real n + 1 \<le> 2 ^ bit_length n"
  proof -
    have "n + 1 \<le> 2 ^ bit_length n" using b(2) by simp
    then have "real (n + 1) \<le> real (2 ^ bit_length n)" by (simp only: of_nat_le_iff)
    then show ?thesis by simp
  qed
  show ?thesis unfolding p1 p2 using low up n by linarith
next
  case False
  define m where "m = nat (\<lceil>1 / \<bar>x\<bar>\<rceil> - 1)"
  have inv: "1 < 1 / \<bar>x\<bar>" using False assms by simp
  have m: "0 < m" "real m < 1 / \<bar>x\<bar>" "1 / \<bar>x\<bar> \<le> real m + 1"
    using inv unfolding m_def by linarith+
  have e: "binary_exponent x = - int (bit_length m)"
    using False by (simp add: binary_exponent_def m_def)
  from bit_length_bounds[OF m(1)] have b: "2 ^ (bit_length m - 1) \<le> m" "m < 2 ^ bit_length m"
    by auto
  have pos: "0 < bit_length m" using m(1) by (subst bit_length.simps) simp
  have up: "1 / \<bar>x\<bar> \<le> 2 ^ bit_length m"
  proof -
    have "m + 1 \<le> 2 ^ bit_length m" using b(2) by simp
    then have "real (m + 1) \<le> real (2 ^ bit_length m)" by (simp only: of_nat_le_iff)
    then show ?thesis using m(3) by simp
  qed
  have low: "(2::real) ^ (bit_length m - 1) < 1 / \<bar>x\<bar>"
  proof -
    have "real (2 ^ (bit_length m - 1)) \<le> real m" using b(1) by (simp only: of_nat_le_iff)
    then have "(2::real) ^ (bit_length m - 1) \<le> real m" by simp
    then show ?thesis using m(2) by linarith
  qed
  have xpos: "0 < \<bar>x\<bar>" using assms by simp
  have p1: "2 powr real_of_int (binary_exponent x) = 1 / 2 ^ bit_length m"
    using e by (simp add: powr_minus powr_realpow[symmetric] inverse_eq_divide)
  have p2: "2 powr real_of_int (binary_exponent x + 1) = 1 / 2 ^ (bit_length m - 1)"
  proof -
    have "real_of_int (binary_exponent x + 1) = - real (bit_length m - 1)"
      using e pos by (simp add: of_nat_diff)
    then show ?thesis by (simp add: powr_minus powr_realpow[symmetric] inverse_eq_divide)
  qed
  have "1 / 2 ^ bit_length m \<le> \<bar>x\<bar>"
    using up xpos by (simp add: field_simps)
  moreover have "\<bar>x\<bar> < 1 / 2 ^ (bit_length m - 1)"
    using low xpos by (simp add: field_simps)
  ultimately show ?thesis using p1 p2 by simp
qed





text \<open>Without rounding the rounded functions are the exact ones.\<close>

lemma foldl_plus: "foldl (\<lambda>s p. s + p) (a::real) ps = a + sum_list ps"
  by (induction ps arbitrary: a) simp_all

lemma row_dot_rounded_exact: "row_dot_rounded (\<lambda>v. v) r x = row_dot r x"
  by (simp add: row_dot_rounded_def row_dot_def foldl_plus)

lemma dot_rounded_exact: "dot_rounded (\<lambda>v. v) M x = dot M x"
  by (simp add: dot_rounded_def dot_def mat_vec_def row_dot_rounded_exact)

lemma dot_A_rounded_exact: "dot_A_rounded (\<lambda>v. v) self x = dot_A self x"
  by (simp add: dot_A_rounded_def dot_A_def dot_rounded_exact split: option.splits)

lemma FixBoundary_compute_rounded_exact:
  "FixBoundary_compute_rounded (\<lambda>v. v) self args kwargs = FixBoundary_compute self args kwargs"
  by (simp add: FixBoundary_compute_rounded_def FixBoundary_compute_def dot_A_rounded_exact
      split: list.splits)



section \<open>Properties of the optimizer wrappers\<close>

subsection \<open>Dictionaries, strings and the registry\<close>

lemma getitem_Some: "d k = Some v \<Longrightarrow> getitem d k = Inr v"
  by (simp add: getitem_def)

lemma getitem_error: "getitem d k = Inl e \<Longrightarrow> e = KeyError k"
  by (auto simp: getitem_def split: option.splits)

lemma and_then_Inl: "and_then r f = Inl e \<Longrightarrow> r = Inl e \<or> (\<exists>v. r = Inr v \<and> f v = Inl e)"
  by (auto simp: and_then_def split: sum.splits)

lemma and_then_Inr: "and_then r f = Inr w \<Longrightarrow> \<exists>v. r = Inr v \<and> f v = Inr w"
  by (auto simp: and_then_def split: sum.splits)

lemma setdefault_apply:
  "setdefault opts k v k' =
     (case opts k' of Some w \<Rightarrow> Some w | None \<Rightarrow> if k' = k then Some v else None)"
  by (simp add: setdefault_def split: option.splits)

lemma str_replace_names:
  "str_replace ''-bfgs'' [] ''dogleg'' = ''dogleg''"
  "str_replace ''-bfgs'' [] ''subspace'' = ''subspace''"
  "str_replace ''-bfgs'' [] ''dogleg-bfgs'' = ''dogleg''"
  "str_replace ''-bfgs'' [] ''subspace-bfgs'' = ''subspace''"
  by simp_all

lemma str_contains_names:
  "\<not> str_contains ''bfgs'' ''dogleg''"
  "\<not> str_contains ''bfgs'' ''subspace''"
  "str_contains ''bfgs'' ''dogleg-bfgs''"
  "str_contains ''bfgs'' ''subspace-bfgs''"
  by simp_all

text \<open>\<open>replace\<close> removes every occurrence, not only a suffix: away from the registered
  names the two differ.\<close>

lemma str_replace_not_suffix_only:
  "str_replace ''-bfgs'' [] ''a-bfgs-b'' = ''a-b''" "strip_suffix ''-bfgs'' ''a-bfgs-b'' = ''a-bfgs-b''"
  by (simp_all add: strip_suffix_def suffix_def)

lemma upt4: "[0..<4] = [0, 1, 2, 3]"
  by (simp add: upt_rec)

lemma optimizers_value: "optimizers = Inr module_registry"
  by (simp add: optimizers_def register_optimizer_def and_then_def fits_def at_name_def
      module_registry_def upt4)

text \<open>The spec's registry property in general: registering a name and resolving it gives
  back the driver and the flags.\<close>

lemma register_then_resolve:
  assumes "register_optimizer (One name) (One s) (One e) (One i) (One st) (One h) f reg = Inr reg'"
  shows "resolve reg' name =
           Inr \<lparr>driver_fn = f, is_scalar = s, supports_equality_constraints = e,
                supports_inequality_constraints = i, is_stochastic = st, hessian_spec = h\<rparr>"
  using assms by (auto simp: register_optimizer_def resolve_def fits_def at_name_def)

subsection \<open>What the wrappers pass on\<close>

lemma least_squares_call:
  assumes "stoptol ''ftol'' = Some ftol" and "stoptol ''xtol'' = Some xtol"
    and "stoptol ''gtol'' = Some gtol" and "stoptol ''maxiter'' = Some maxiter"
  shows "optimize_desc_least_squares engine objective None x0 method x_scale verbose stoptol options =
         Inr (engine \<lparr>ls_fun = obj_compute objective, ls_x0 = x0, ls_jac = obj_jac objective,
                      ls_x_scale = x_scale, ls_ftol = ftol, ls_xtol = xtol, ls_gtol = gtol,
                      ls_maxiter = maxiter, ls_verbose = verbose,
                      ls_options = least_squares_options x_scale options\<rparr>)"
  using assms by (simp add: optimize_desc_least_squares_def getitem_Some and_then_def)

lemma least_squares_passes_options:
  "optimize_desc_least_squares (\<lambda>a. a) objective None x0 method x_scale verbose stoptol options = Inr a
   \<Longrightarrow> ls_options a = least_squares_options x_scale options"
  by (auto simp: optimize_desc_least_squares_def Let_def dest!: and_then_Inr)

lemma fmin_scalar_passes:
  "optimize_desc_fmin_scalar (\<lambda>a. a) objective None x0 method x_scale verbose stoptol options = Inr a
   \<Longrightarrow> fm_options a = fmin_scalar_options x_scale options \<and>
       fm_hess a = (if str_contains ''bfgs'' method then HessName ''bfgs''
                    else HessFun (obj_hess objective)) \<and>
       fm_method a = str_replace ''-bfgs'' [] method"
  by (auto simp: optimize_desc_fmin_scalar_def Let_def dest!: and_then_Inr)

lemma stochastic_passes_options:
  "optimize_desc_stochastic (\<lambda>a. a) objective None x0 method x_scale verbose stoptol options = Inr a
   \<Longrightarrow> sg_options a = options_or_empty options"
  by (auto simp: optimize_desc_stochastic_def Let_def dest!: and_then_Inr)

lemma example_stoptol_keys:
  "example_stoptol ''ftol'' = Some (1 / 10 ^ 6)" "example_stoptol ''xtol'' = Some (1 / 10 ^ 6)"
  "example_stoptol ''gtol'' = Some (1 / 10 ^ 6)" "example_stoptol ''maxiter'' = Some 100"
  "example_stoptol ''max_nfev'' = Some 1" "example_stoptol ''max_njev'' = Some 1"
  by (simp_all add: example_stoptol_def)

subsection \<open>The least-squares driver\<close>

lemma message_nonempty: "message s \<noteq> []"
  by (cases s) (simp_all add: message_def)

lemma try_step_counts:
  "(try_step impl a radius_max retries st = Rejected st' \<longrightarrow>
      tr_iteration st' = tr_iteration st \<and> tr_nfev st' \<le> tr_nfev st + retries \<and>
      tr_njev st' = tr_njev st) \<and>
   (try_step impl a radius_max retries st = Accepted st' p ar \<longrightarrow>
      tr_nfev st' \<le> tr_nfev st + retries \<and> tr_njev st' = Suc (tr_njev st))"
proof (induction retries arbitrary: st)
  case 0
  then show ?case by simp
next
  case (Suc retries)
  define s where "s = step_solver impl (tr_J st) (tr_f st) (tr_radius st)"
  define ar' where "ar' = sq_norm (tr_f st) - sq_norm (ls_fun a (vadd (tr_x st) (step_p s)))"
  define st1 where "st1 = st\<lparr>tr_radius :=
       (if ratio_less ar' (predicted_reduction s) (1 / 4) then 1 / 4 * norm2 (step_p s)
        else if ratio_greater ar' (predicted_reduction s) (3 / 4) \<and> hits_boundary s
        then min (2 * tr_radius st) radius_max else tr_radius st),
       tr_nfev := Suc (tr_nfev st)\<rparr>"
  show ?case
  proof (cases "0 < ar'")
    case True
    then show ?thesis by (auto simp: Let_def s_def ar'_def)
  next
    case False
    then have "try_step impl a radius_max (Suc retries) st = try_step impl a radius_max retries st1"
      by (simp add: Let_def s_def ar'_def st1_def)
    moreover have "tr_nfev st1 = Suc (tr_nfev st)" "tr_njev st1 = tr_njev st"
      "tr_iteration st1 = tr_iteration st"
      by (simp_all add: st1_def)
    ultimately show ?thesis using Suc.IH[of st1] by auto
  qed
qed

lemma lsqtr_finish_fields:
  "res_success (lsqtr_finish s st) = (s = CONVERGED)"
  "res_message (lsqtr_finish s st) = message s"
  "res_status (lsqtr_finish s st) = s"
  "res_nit (lsqtr_finish s st) = tr_iteration st"
  "res_nfev (lsqtr_finish s st) = tr_nfev st"
  "res_njev (lsqtr_finish s st) = tr_njev st"
  by (simp_all add: lsqtr_finish_def)

text \<open>The loop returns a result for every input (it is a total function), and the result
  keeps within the iteration bound and the driver's own evaluation budgets.\<close>

lemma lsqtr_iterate_result:
  "tr_iteration st \<le> nat \<lceil>ls_maxiter a\<rceil> \<Longrightarrow>
   (let r = lsqtr_iterate impl a radius_max st in
      res_success r = (res_status r = CONVERGED) \<and> res_message r = message (res_status r) \<and>
      res_nit r \<le> nat \<lceil>ls_maxiter a\<rceil> \<and>
      res_nfev r \<le> max (tr_nfev st) (fst (eval_budget impl a) + max_retries impl) \<and>
      res_njev r \<le> max (tr_njev st) (snd (eval_budget impl a)))"
proof (induction impl a radius_max st rule: lsqtr_iterate.induct)
  case (1 impl a radius_max st)
  let ?stop1 = "norm_inf (jac_transpose_dot (tr_J st) (tr_f st)) < ls_gtol a"
  let ?stop2 = "ls_maxiter a \<le> real (tr_iteration st) \<or>
              fst (eval_budget impl a) \<le> tr_nfev st \<or> snd (eval_budget impl a) \<le> tr_njev st"
  show ?case
  proof (cases "?stop1 \<or> ?stop2")
    case True
    then show ?thesis using "1.prems"
      by (subst lsqtr_iterate.simps) (auto simp: lsqtr_finish_fields Let_def)
  next
    case False
    then have go: "\<not> ?stop1" "\<not> ?stop2" by auto
    then have lt: "tr_iteration st < nat \<lceil>ls_maxiter a\<rceil>" by linarith
    show ?thesis
    proof (cases "try_step impl a radius_max (max_retries impl) st")
      case (Rejected st')
      then have "tr_iteration st' = tr_iteration st"
        "tr_nfev st' \<le> tr_nfev st + max_retries impl" "tr_njev st' = tr_njev st"
        using try_step_counts[of impl a radius_max "max_retries impl" st st'] by auto
      then show ?thesis using go Rejected "1.prems"
        by (subst lsqtr_iterate.simps) (auto simp: lsqtr_finish_fields Let_def)
    next
      case (Accepted st' p ar)
      then have c: "tr_nfev st' \<le> tr_nfev st + max_retries impl" "tr_njev st' = Suc (tr_njev st)"
        using try_step_counts[of impl a radius_max "max_retries impl" st st' p ar] by auto
      let ?st = "st'\<lparr>tr_iteration := Suc (tr_iteration st)\<rparr>"
      show ?thesis
      proof (cases "ratio_less (norm2 p) (norm2 (tr_x st)) (ls_xtol a) \<or>
                   ratio_less \<bar>ar\<bar> (sq_norm (tr_f st)) (ls_ftol a)")
        case True
        then show ?thesis using go Accepted lt c
          by (subst lsqtr_iterate.simps) (auto simp: lsqtr_finish_fields Let_def)
      next
        case False
        have ih: "let r = lsqtr_iterate impl a radius_max ?st in
            res_success r = (res_status r = CONVERGED) \<and> res_message r = message (res_status r) \<and>
            res_nit r \<le> nat \<lceil>ls_maxiter a\<rceil> \<and>
            res_nfev r \<le> max (tr_nfev ?st) (fst (eval_budget impl a) + max_retries impl) \<and>
            res_njev r \<le> max (tr_njev ?st) (snd (eval_budget impl a))"
          using "1.IH"[OF go Accepted False] lt by simp
        have eq: "lsqtr_iterate impl a radius_max st = lsqtr_iterate impl a radius_max ?st"
          using go Accepted False by (subst lsqtr_iterate.simps) simp
        show ?thesis unfolding eq using ih c go by (auto simp: Let_def)
      qed
    qed
  qed
qed

lemma lsqtr_result:
  "res_success (lsqtr impl a) = (res_status (lsqtr impl a) = CONVERGED) \<and>
   res_message (lsqtr impl a) = message (res_status (lsqtr impl a)) \<and>
   res_nit (lsqtr impl a) \<le> nat \<lceil>ls_maxiter a\<rceil> \<and>
   res_nfev (lsqtr impl a) \<le> max 1 (fst (eval_budget impl a) + max_retries impl) \<and>
   res_njev (lsqtr impl a) \<le> max 1 (snd (eval_budget impl a))"
  using lsqtr_iterate_result[of
      "\<lparr>tr_x = ls_x0 a,
        tr_radius = option_num (ls_options a) ''initial_trust_radius'' (fst (default_radius impl a)),
        tr_f = ls_fun a (ls_x0 a), tr_J = ls_jac a (ls_x0 a),
        tr_iteration = 0, tr_nfev = 1, tr_njev = 1\<rparr>" a impl
      "option_num (ls_options a) ''max_trust_radius'' (snd (default_radius impl a))"]
  by (simp add: lsqtr_def Let_def)

subsection \<open>A run of the least-squares driver\<close>

lemma example_wrapper:
  "optimize_desc_least_squares engine shifted_identity None [0] ''lsq-exact''
     (ScaleStr ''jac'') 0 example_stoptol None = Inr (engine example_call)"
  by (simp add: optimize_desc_least_squares_def least_squares_options_def unit_scale_def
      options_or_empty_def example_stoptol_def getitem_def and_then_def example_call_def)

lemma example_jac: "ls_jac example_call [v] = unit_matrix"
  by (simp add: example_call_def shifted_identity_def eye_rows_def arange_def unit_row_def
      unit_matrix_def)

lemma example_fun: "ls_fun example_call [v] = [v - 1]"
  by (simp add: example_call_def shifted_identity_def)

lemma example_fields:
  "ls_gtol example_call = 1 / 10 ^ 6" "ls_xtol example_call = 1 / 10 ^ 6"
  "ls_ftol example_call = 1 / 10 ^ 6" "ls_maxiter example_call = 100"
  "eval_budget example_lsqtr a = (1000, 1000)" "max_retries example_lsqtr = 10"
  by (simp_all add: example_call_def example_lsqtr_def)

lemma example_gradient: "jac_transpose_dot unit_matrix [v] = [v]"
  by (simp add: jac_transpose_dot_def unit_matrix_def)

lemma example_first_step:
  "try_step example_lsqtr example_call 1000 (Suc n)
     \<lparr>tr_x = [0], tr_radius = 1, tr_f = [- 1], tr_J = unit_matrix,
      tr_iteration = 0, tr_nfev = Suc 0, tr_njev = Suc 0\<rparr> =
   Accepted \<lparr>tr_x = [1], tr_radius = 2, tr_f = [0], tr_J = unit_matrix,
      tr_iteration = 0, tr_nfev = 2, tr_njev = 2\<rparr> [1] 1"
  by (simp add: example_lsqtr_def newton_step_1d_def unit_matrix_def Let_def vadd_def
      example_fun example_jac sq_norm_def norm2_def ratio_less_def ratio_greater_def)

lemma example_first_step_of_ten:
  "try_step example_lsqtr example_call 1000 10
     \<lparr>tr_x = [0], tr_radius = 1, tr_f = [- 1], tr_J = unit_matrix,
      tr_iteration = 0, tr_nfev = Suc 0, tr_njev = Suc 0\<rparr> =
   Accepted \<lparr>tr_x = [1], tr_radius = 2, tr_f = [0], tr_J = unit_matrix,
      tr_iteration = 0, tr_nfev = 2, tr_njev = 2\<rparr> [1] 1"
  using example_first_step[of 9] by simp

lemma example_first_iteration:
  "lsqtr_iterate example_lsqtr example_call 1000
     \<lparr>tr_x = [0], tr_radius = 1, tr_f = [- 1], tr_J = unit_matrix,
      tr_iteration = 0, tr_nfev = Suc 0, tr_njev = Suc 0\<rparr> =
   lsqtr_iterate example_lsqtr example_call 1000
     \<lparr>tr_x = [1], tr_radius = 2, tr_f = [0], tr_J = unit_matrix,
      tr_iteration = Suc 0, tr_nfev = 2, tr_njev = 2\<rparr>"
  by (subst lsqtr_iterate.simps)
    (simp add: example_fields example_first_step_of_ten example_gradient norm_inf_def
      ratio_less_def norm2_def sq_norm_def)

lemma example_second_iteration:
  "lsqtr_iterate example_lsqtr example_call 1000
     \<lparr>tr_x = [1], tr_radius = 2, tr_f = [0], tr_J = unit_matrix,
      tr_iteration = Suc 0, tr_nfev = 2, tr_njev = 2\<rparr> =
   \<lparr>res_x = [1], res_fun = 0, res_grad_norm = 0, res_success = True,
    res_message = message CONVERGED, res_status = CONVERGED, res_nit = Suc 0, res_nfev = 2,
    res_njev = 2\<rparr>"
  by (subst lsqtr_iterate.simps)
    (simp add: example_gradient norm_inf_def example_call_def lsqtr_finish_def sq_norm_def)

lemma example_start:
  "ls_x0 example_call = [0]"
  "option_num (ls_options example_call) ''initial_trust_radius''
     (fst (default_radius example_lsqtr example_call)) = 1"
  "option_num (ls_options example_call) ''max_trust_radius''
     (snd (default_radius example_lsqtr example_call)) = 1000"
  by (simp_all add: example_call_def example_lsqtr_def option_num_def)

text \<open>The run takes one iteration, as the spec says of \<open>f(x) = x - c\<close>, and two
  evaluations of \<open>f\<close> and of \<open>J\<close>.\<close>

lemma example_run:
  "lsqtr example_lsqtr example_call =
   \<lparr>res_x = [1], res_fun = 0, res_grad_norm = 0, res_success = True,
    res_message = message CONVERGED, res_status = CONVERGED, res_nit = Suc 0, res_nfev = 2,
    res_njev = 2\<rparr>"
  unfolding lsqtr_def example_start
  using example_first_iteration example_second_iteration by (simp add: example_fun example_jac)

subsection \<open>Termination and evaluation budgets\<close>

text \<open>
  C2, as the code has it. The lsq-exact driver reads \<open>ftol\<close>, \<open>xtol\<close>, \<open>gtol\<close> and
  \<open>maxiter\<close> from \<open>stoptol\<close> and nothing else: with any solver, two sets of tolerances
  that agree on these four keys give the same run, whatever their \<open>max_nfev\<close> and
  \<open>max_njev\<close>. With the solver of the spec the run returns a result, by iteration
  \<open>maxiter\<close> at the latest and within the evaluation budgets the solver itself works
  with, and a \<open>MAX_ITER\<close> termination is a result with \<open>success = false\<close> and a message,
  not an error.
\<close>

theorem least_squares_budget:
  assumes "stoptol ''ftol'' = Some ftol" and "stoptol ''xtol'' = Some xtol"
    and "stoptol ''gtol'' = Some gtol" and "stoptol ''maxiter'' = Some maxiter"
    and "stoptol' ''ftol'' = stoptol ''ftol''" and "stoptol' ''xtol'' = stoptol ''xtol''"
    and "stoptol' ''gtol'' = stoptol ''gtol''" and "stoptol' ''maxiter'' = stoptol ''maxiter''"
  shows "optimize_desc_least_squares engine objective None x0 method x_scale verbose stoptol' options =
         optimize_desc_least_squares engine objective None x0 method x_scale verbose stoptol options \<and>
         (\<exists>a r. optimize_desc_least_squares (\<lambda>a. a) objective None x0 method x_scale verbose
                   stoptol options = Inr a \<and>
                 optimize_desc_least_squares (lsqtr impl) objective None x0 method x_scale verbose
                   stoptol options = Inr r \<and>
                 r = lsqtr impl a \<and>
                 res_nit r \<le> nat \<lceil>maxiter\<rceil> \<and>
                 res_nfev r \<le> max 1 (fst (eval_budget impl a) + max_retries impl) \<and>
                 res_njev r \<le> max 1 (snd (eval_budget impl a)) \<and>
                 (res_status r = MAX_ITER \<longrightarrow> \<not> res_success r \<and> res_message r \<noteq> []))"
proof -
  let ?a = "\<lparr>ls_fun = obj_compute objective, ls_x0 = x0, ls_jac = obj_jac objective,
             ls_x_scale = x_scale, ls_ftol = ftol, ls_xtol = xtol, ls_gtol = gtol,
             ls_maxiter = maxiter, ls_verbose = verbose,
             ls_options = least_squares_options x_scale options\<rparr>"
  have same: "optimize_desc_least_squares engine objective None x0 method x_scale verbose stoptol' options =
      optimize_desc_least_squares engine objective None x0 method x_scale verbose stoptol options"
    using assms by (simp add: optimize_desc_least_squares_def getitem_def)
  have call: "optimize_desc_least_squares (\<lambda>a. a) objective None x0 method x_scale verbose
      stoptol options = Inr ?a"
    using assms(1-4) by (rule least_squares_call)
  have run: "optimize_desc_least_squares (lsqtr impl) objective None x0 method x_scale verbose
      stoptol options = Inr (lsqtr impl ?a)"
    using assms(1-4) by (rule least_squares_call)
  have bounds: "res_nit (lsqtr impl ?a) \<le> nat \<lceil>maxiter\<rceil> \<and>
      res_nfev (lsqtr impl ?a) \<le> max 1 (fst (eval_budget impl ?a) + max_retries impl) \<and>
      res_njev (lsqtr impl ?a) \<le> max 1 (snd (eval_budget impl ?a)) \<and>
      (res_status (lsqtr impl ?a) = MAX_ITER \<longrightarrow>
         \<not> res_success (lsqtr impl ?a) \<and> res_message (lsqtr impl ?a) \<noteq> [])"
    using lsqtr_result[of impl ?a] message_nonempty by simp
  show ?thesis using same call run bounds by blast
qed

theorem least_squares_budget_witness:
  "example_stoptol ''ftol'' = Some (1 / 10 ^ 6) \<and> example_stoptol ''xtol'' = Some (1 / 10 ^ 6) \<and>
   example_stoptol ''gtol'' = Some (1 / 10 ^ 6) \<and> example_stoptol ''maxiter'' = Some 100 \<and>
   (example_stoptol(''max_nfev'' \<mapsto> 50)) ''max_nfev'' \<noteq> example_stoptol ''max_nfev'' \<and>
   optimize_desc_least_squares (lsqtr example_lsqtr) shifted_identity None [0] ''lsq-exact''
     (ScaleStr ''jac'') 0 (example_stoptol(''max_nfev'' \<mapsto> 50)) None =
   optimize_desc_least_squares (lsqtr example_lsqtr) shifted_identity None [0] ''lsq-exact''
     (ScaleStr ''jac'') 0 example_stoptol None"
proof -
  have keys: "(example_stoptol(''max_nfev'' \<mapsto> 50)) ''ftol'' = example_stoptol ''ftol''"
    "(example_stoptol(''max_nfev'' \<mapsto> 50)) ''xtol'' = example_stoptol ''xtol''"
    "(example_stoptol(''max_nfev'' \<mapsto> 50)) ''gtol'' = example_stoptol ''gtol''"
    "(example_stoptol(''max_nfev'' \<mapsto> 50)) ''maxiter'' = example_stoptol ''maxiter''"
    by simp_all
  have differ: "(example_stoptol(''max_nfev'' \<mapsto> 50)) ''max_nfev'' \<noteq> example_stoptol ''max_nfev''"
    by (simp add: example_stoptol_keys)
  show ?thesis
    using least_squares_budget[OF example_stoptol_keys(1-4) keys,
        of "lsqtr example_lsqtr" shifted_identity "[0]" "''lsq-exact''" "ScaleStr ''jac''" 0 None
          example_lsqtr]
      example_stoptol_keys(1-4) differ
    by blast
qed

text \<open>The claim as written fails: with \<open>max_nfev = 1\<close> and \<open>max_njev = 1\<close> in \<open>stoptol\<close>
  the run goes on to two evaluations of each kind and ends with \<open>success = true\<close>.\<close>

theorem least_squares_budget_counterexample:
  "example_stoptol ''max_nfev'' = Some 1 \<and> example_stoptol ''max_njev'' = Some 1 \<and>
   map_sum id (\<lambda>r. (res_x r, res_success r, res_nfev r, res_njev r))
     (optimize_desc_least_squares (lsqtr example_lsqtr) shifted_identity None [0] ''lsq-exact''
        (ScaleStr ''jac'') 0 example_stoptol None) = Inr ([1], True, 2, 2)"
  by (simp add: example_wrapper example_run example_stoptol_keys)

subsection \<open>Default options\<close>

text \<open>
  C3, as the code has it. A value the caller supplies for any key is never overridden.
  When \<open>x_scale\<close> is unit, a missing \<open>initial_trust_radius\<close> becomes \<open>1e-3\<close> in the
  lsq-exact driver and a missing \<open>max_trust_radius\<close> becomes \<open>1.0\<close> in the lsq-exact and
  the scalar drivers: constants, the same for every \<open>x0\<close>. \<open>max_trust_ratio\<close> gets no
  default. When \<open>x_scale\<close> is not unit the options are passed on as given, and the sgd
  driver always passes them on as given.
\<close>

theorem trust_radius_defaults:
  "(options_or_empty options k = Some v \<longrightarrow>
      least_squares_options x_scale options k = Some v \<and>
      fmin_scalar_options x_scale options k = Some v) \<and>
   (unit_scale x_scale \<and> options_or_empty options ''initial_trust_radius'' = None \<longrightarrow>
      least_squares_options x_scale options ''initial_trust_radius'' = Some (Num (1 / 1000))) \<and>
   (unit_scale x_scale \<and> options_or_empty options ''max_trust_radius'' = None \<longrightarrow>
      least_squares_options x_scale options ''max_trust_radius'' = Some (Num 1) \<and>
      fmin_scalar_options x_scale options ''max_trust_radius'' = Some (Num 1)) \<and>
   least_squares_options x_scale options ''max_trust_ratio'' =
     options_or_empty options ''max_trust_ratio'' \<and>
   fmin_scalar_options x_scale options ''max_trust_ratio'' =
     options_or_empty options ''max_trust_ratio'' \<and>
   (\<not> unit_scale other_scale \<longrightarrow>
      least_squares_options other_scale options = options_or_empty options \<and>
      fmin_scalar_options other_scale options = options_or_empty options) \<and>
   (optimize_desc_least_squares (\<lambda>a. a) objective None x0 method x_scale verbose stoptol options
      = Inr a \<longrightarrow> ls_options a = least_squares_options x_scale options) \<and>
   (optimize_desc_fmin_scalar (\<lambda>a. a) objective None x0 method x_scale verbose stoptol options
      = Inr b \<longrightarrow> fm_options b = fmin_scalar_options x_scale options) \<and>
   (optimize_desc_stochastic (\<lambda>a. a) objective None x0 method x_scale verbose stoptol options
      = Inr c \<longrightarrow> sg_options c = options_or_empty options)"
proof -
  have kept: "options_or_empty options k = Some v \<longrightarrow>
      least_squares_options x_scale options k = Some v \<and>
      fmin_scalar_options x_scale options k = Some v"
    by (simp add: least_squares_options_def fmin_scalar_options_def Let_def setdefault_apply)
  have radius: "unit_scale x_scale \<and> options_or_empty options ''initial_trust_radius'' = None \<longrightarrow>
      least_squares_options x_scale options ''initial_trust_radius'' = Some (Num (1 / 1000))"
    by (simp add: least_squares_options_def Let_def setdefault_apply)
  have radius_max: "unit_scale x_scale \<and> options_or_empty options ''max_trust_radius'' = None \<longrightarrow>
      least_squares_options x_scale options ''max_trust_radius'' = Some (Num 1) \<and>
      fmin_scalar_options x_scale options ''max_trust_radius'' = Some (Num 1)"
    by (simp add: least_squares_options_def fmin_scalar_options_def Let_def setdefault_apply)
  have ratio: "least_squares_options x_scale options ''max_trust_ratio'' =
        options_or_empty options ''max_trust_ratio''"
    "fmin_scalar_options x_scale options ''max_trust_ratio'' =
        options_or_empty options ''max_trust_ratio''"
    by (simp_all add: least_squares_options_def fmin_scalar_options_def Let_def setdefault_apply
        split: option.splits)
  have other: "\<not> unit_scale other_scale \<longrightarrow>
      least_squares_options other_scale options = options_or_empty options \<and>
      fmin_scalar_options other_scale options = options_or_empty options"
    by (simp add: least_squares_options_def fmin_scalar_options_def)
  have lsq: "optimize_desc_least_squares (\<lambda>a. a) objective None x0 method x_scale verbose stoptol
      options = Inr a \<longrightarrow> ls_options a = least_squares_options x_scale options"
    by (rule impI) (rule least_squares_passes_options)
  have fmin: "optimize_desc_fmin_scalar (\<lambda>a. a) objective None x0 method x_scale verbose stoptol
      options = Inr b \<longrightarrow> fm_options b = fmin_scalar_options x_scale options"
    using fmin_scalar_passes[of objective x0 _ x_scale verbose stoptol options b] by simp
  have stoch: "optimize_desc_stochastic (\<lambda>a. a) objective None x0 method x_scale verbose stoptol
      options = Inr c \<longrightarrow> sg_options c = options_or_empty options"
    by (rule impI) (rule stochastic_passes_options)
  show ?thesis
    by (intro conjI) (fact kept radius radius_max ratio other lsq fmin stoch)+
qed

lemma example_unit_scale: "unit_scale (ScaleArr [1, 1])" "\<not> unit_scale (ScaleStr ''jac'')"
  by (simp_all add: unit_scale_def allclose_def)

theorem trust_radius_defaults_witness:
  "options_or_empty (Some [''max_trust_ratio'' \<mapsto> Num 5]) ''max_trust_ratio'' = Some (Num 5) \<and>
   unit_scale (ScaleArr [1, 1]) \<and> \<not> unit_scale (ScaleStr ''jac'') \<and>
   options_or_empty (Some [''max_trust_ratio'' \<mapsto> Num 5]) ''initial_trust_radius'' = None \<and>
   options_or_empty (Some [''max_trust_ratio'' \<mapsto> Num 5]) ''max_trust_radius'' = None \<and>
   least_squares_options (ScaleArr [1, 1]) (Some [''max_trust_ratio'' \<mapsto> Num 5]) =
     [''max_trust_ratio'' \<mapsto> Num 5, ''initial_trust_radius'' \<mapsto> Num (1 / 1000),
      ''max_trust_radius'' \<mapsto> Num 1] \<and>
   least_squares_options (ScaleStr ''jac'') (Some [''max_trust_ratio'' \<mapsto> Num 5]) =
     [''max_trust_ratio'' \<mapsto> Num 5]"
proof -
  let ?opts = "Some [''max_trust_ratio'' \<mapsto> Num 5]"
  have given: "options_or_empty ?opts ''max_trust_ratio'' = Some (Num 5)"
    "options_or_empty ?opts ''initial_trust_radius'' = None"
    "options_or_empty ?opts ''max_trust_radius'' = None"
    by (simp_all add: options_or_empty_def)
  have facts: "least_squares_options (ScaleArr [1, 1]) ?opts ''max_trust_ratio'' = Some (Num 5)"
    "least_squares_options (ScaleArr [1, 1]) ?opts ''initial_trust_radius'' = Some (Num (1 / 1000))"
    "least_squares_options (ScaleArr [1, 1]) ?opts ''max_trust_radius'' = Some (Num 1)"
    "least_squares_options (ScaleStr ''jac'') ?opts = options_or_empty ?opts"
    using trust_radius_defaults[of ?opts "''max_trust_ratio''" "Num 5" "ScaleArr [1, 1]"
        "ScaleStr ''jac''"] given example_unit_scale
    by blast+
  have all_keys: "least_squares_options (ScaleArr [1, 1]) ?opts k =
      [''max_trust_ratio'' \<mapsto> Num 5, ''initial_trust_radius'' \<mapsto> Num (1 / 1000),
       ''max_trust_radius'' \<mapsto> Num 1] k" for k
    using facts(1-3)
    by (simp add: least_squares_options_def Let_def setdefault_apply options_or_empty_def
        example_unit_scale)
  have "least_squares_options (ScaleArr [1, 1]) ?opts =
      [''max_trust_ratio'' \<mapsto> Num 5, ''initial_trust_radius'' \<mapsto> Num (1 / 1000),
       ''max_trust_radius'' \<mapsto> Num 1]"
    using all_keys by (rule ext)
  moreover have "least_squares_options (ScaleStr ''jac'') ?opts = [''max_trust_ratio'' \<mapsto> Num 5]"
    using facts(4) by (simp add: options_or_empty_def)
  ultimately show ?thesis using given example_unit_scale by simp
qed

text \<open>The claim as written fails: from \<open>x0 = [3, 4]\<close> and from \<open>x0 = [300, 400]\<close>, of norms
  5 and 500, the default \<open>initial_trust_radius\<close> is the same \<open>1e-3\<close>, and
  \<open>max_trust_ratio\<close> gets no default.\<close>

theorem trust_radius_defaults_counterexample:
  "map_sum id (\<lambda>a. (ls_options a ''initial_trust_radius'', ls_options a ''max_trust_ratio''))
     (optimize_desc_least_squares (\<lambda>a. a) shifted_identity None [3, 4] ''lsq-exact''
        (ScaleArr [1, 1]) 0 example_stoptol None) = Inr (Some (Num (1 / 1000)), None) \<and>
   map_sum id (\<lambda>a. (ls_options a ''initial_trust_radius'', ls_options a ''max_trust_ratio''))
     (optimize_desc_least_squares (\<lambda>a. a) shifted_identity None [300, 400] ''lsq-exact''
        (ScaleArr [1, 1]) 0 example_stoptol None) = Inr (Some (Num (1 / 1000)), None)"
  by (simp add: least_squares_call[OF example_stoptol_keys(1-4)] least_squares_options_def
      example_unit_scale options_or_empty_def setdefault_def)

text \<open>The first default of the scalar driver goes to another key than the one of the
  lsq-exact driver.\<close>

lemma fmin_scalar_first_default:
  "fmin_scalar_options (ScaleArr [1, 1]) None =
     [''initial_trust_ratio'' \<mapsto> Num (1 / 1000), ''max_trust_radius'' \<mapsto> Num 1]"
  by (simp add: fmin_scalar_options_def example_unit_scale options_or_empty_def setdefault_def)

subsection \<open>Constraints\<close>

lemma assert_precedes:
  "call_driver E d objective (Some c) x0 method x_scale verbose stoptol options =
     Inl (AssertionError (no_constraints_message method))"
  by (cases d)
    (simp_all add: optimize_desc_least_squares_def optimize_desc_fmin_scalar_def
      optimize_desc_stochastic_def)

lemma no_assert_without_constraint:
  "call_driver E d objective None x0 method x_scale verbose stoptol options
     \<noteq> Inl (AssertionError msg)"
  by (cases d)
    (auto simp: optimize_desc_least_squares_def optimize_desc_fmin_scalar_def
      optimize_desc_stochastic_def Let_def dest!: and_then_Inl getitem_error)

text \<open>
  C4, as the code has it. Every registered method declares
  \<open>supports_equality_constraints = false\<close>, and it is the driver itself that rejects a
  constrained problem, by its first statement, an assertion; the registry validates nothing
  (\<open>resolve\<close> is a lookup). In each driver a call with \<open>constraint = None\<close> never fails
  on the constraint assertion, and a call with a constraint fails on it at once with
  \<open>AssertionError\<close>: the result is that error for every solver, every \<open>stoptol\<close> and every
  options, none of which is consulted.
\<close>

theorem drivers_reject_constraints:
  "(\<forall>name r. (\<exists>reg. optimizers = Inr reg \<and> resolve reg name = Inr r)
       \<longrightarrow> \<not> supports_equality_constraints r) \<and>
   call_driver E d objective None x0 method x_scale verbose stoptol options
     \<noteq> Inl (AssertionError msg) \<and>
   call_driver E d objective (Some c) x0 method x_scale verbose stoptol options
     = Inl (AssertionError (no_constraints_message method))"
proof (intro conjI allI impI)
  fix name r
  assume "\<exists>reg. optimizers = Inr reg \<and> resolve reg name = Inr r"
  then have "resolve module_registry name = Inr r" by (simp add: optimizers_value)
  then show "\<not> supports_equality_constraints r"
    by (auto simp: resolve_def module_registry_def split: if_splits)
qed (simp_all add: assert_precedes no_assert_without_constraint)

theorem drivers_reject_constraints_witness:
  "(\<exists>reg. optimizers = Inr reg \<and>
      resolve reg ''sgd'' =
        Inr \<lparr>driver_fn = Stochastic_driver, is_scalar = True,
             supports_equality_constraints = False, supports_inequality_constraints = False,
             is_stochastic = True, hessian_spec = False\<rparr>) \<and>
   call_driver recording_engines Stochastic_driver shifted_identity None [0] ''sgd''
     (ScaleStr ''jac'') 0 example_stoptol None = Inr ''sgd'' \<and>
   call_driver recording_engines Stochastic_driver shifted_identity (Some shifted_identity) [0]
     ''sgd'' (ScaleStr ''jac'') 0 example_stoptol None =
     Inl (AssertionError ''method sgd doesn't support constraints'')"
proof -
  have registered: "\<exists>reg. optimizers = Inr reg \<and>
      resolve reg ''sgd'' =
        Inr \<lparr>driver_fn = Stochastic_driver, is_scalar = True,
             supports_equality_constraints = False, supports_inequality_constraints = False,
             is_stochastic = True, hessian_spec = False\<rparr>"
    by (simp add: optimizers_value resolve_def module_registry_def)
  have runs: "call_driver recording_engines Stochastic_driver shifted_identity None [0] ''sgd''
     (ScaleStr ''jac'') 0 example_stoptol None = Inr ''sgd''"
    by (simp add: optimize_desc_stochastic_def example_stoptol_def getitem_def and_then_def
        recording_engines_def)
  have "call_driver recording_engines Stochastic_driver shifted_identity (Some shifted_identity)
     [0] ''sgd'' (ScaleStr ''jac'') 0 example_stoptol None =
     Inl (AssertionError (no_constraints_message ''sgd''))"
    using drivers_reject_constraints[of recording_engines Stochastic_driver shifted_identity
        "[0]" "''sgd''" "ScaleStr ''jac''" 0 example_stoptol None "[]" shifted_identity]
    by blast
  then show ?thesis using registered runs by (simp add: no_constraints_message_def)
qed

text \<open>The claim as written fails where it says that the driver does not reject: each of
  the three decorated functions, called directly with a constraint, returns the
  \<open>AssertionError\<close> itself, even with an empty \<open>stoptol\<close>, and the solver is not called.\<close>

theorem drivers_reject_constraints_counterexample:
  "optimize_desc_least_squares (\<lambda>a. ''lsqtr'') shifted_identity (Some shifted_identity) [0]
     ''lsq-exact'' (ScaleStr ''jac'') 0 Map.empty None =
     Inl (AssertionError ''method lsq-exact doesn't support constraints'') \<and>
   optimize_desc_fmin_scalar (\<lambda>a. ''fmintr'') shifted_identity (Some shifted_identity) [0]
     ''dogleg'' (ScaleStr ''jac'') 0 Map.empty None =
     Inl (AssertionError ''method dogleg doesn't support constraints'') \<and>
   optimize_desc_stochastic (\<lambda>a. ''sgd'') shifted_identity (Some shifted_identity) [0]
     ''sgd'' (ScaleStr ''jac'') 0 Map.empty None =
     Inl (AssertionError ''method sgd doesn't support constraints'')"
  by (simp add: optimize_desc_least_squares_def optimize_desc_fmin_scalar_def
      optimize_desc_stochastic_def no_constraints_message_def)

subsection \<open>The Hessian of the scalar driver\<close>

lemma fmin_scalar_call:
  assumes "stoptol ''ftol'' = Some ftol" and "stoptol ''xtol'' = Some xtol"
    and "stoptol ''gtol'' = Some gtol" and "stoptol ''maxiter'' = Some maxiter"
  shows "optimize_desc_fmin_scalar engine objective None x0 method x_scale verbose stoptol options =
         Inr (engine \<lparr>fm_fun = obj_compute_scalar objective, fm_x0 = x0,
                      fm_grad = obj_grad objective,
                      fm_hess = (if str_contains ''bfgs'' method then HessName ''bfgs''
                                 else HessFun (obj_hess objective)),
                      fm_method = str_replace ''-bfgs'' [] method, fm_x_scale = x_scale,
                      fm_ftol = ftol, fm_xtol = xtol, fm_gtol = gtol, fm_maxiter = maxiter,
                      fm_verbose = verbose, fm_options = fmin_scalar_options x_scale options\<rparr>)"
  using assms by (simp add: optimize_desc_fmin_scalar_def getitem_Some and_then_def)

text \<open>
  C5. Called without a constraint and with the four keys of \<open>stoptol\<close> it reads, the
  scalar wrapper returns, and what it passes to \<open>fmintr\<close> is \<open>hess = "bfgs"\<close> for a method
  name that contains \<open>"bfgs"\<close> (as \<open>dogleg-bfgs\<close> and \<open>subspace-bfgs\<close> do) and the
  objective's Hessian otherwise (as for \<open>dogleg\<close> and \<open>subspace\<close>); the method it passes is
  the name with \<open>"-bfgs"\<close> replaced by nothing, which for the four registered names is the
  name without that suffix; the hessian flags registered for \<open>dogleg\<close>, \<open>subspace\<close>,
  \<open>dogleg-bfgs\<close>, \<open>subspace-bfgs\<close> are True, True, False, False.
\<close>

theorem fmin_scalar_hessian_choice:
  assumes "stoptol ''ftol'' = Some ftol" and "stoptol ''xtol'' = Some xtol"
    and "stoptol ''gtol'' = Some gtol" and "stoptol ''maxiter'' = Some maxiter"
  shows "(\<exists>a. optimize_desc_fmin_scalar (\<lambda>a. a) objective None x0 method x_scale verbose stoptol
            options = Inr a \<and>
          fm_hess a = (if str_contains ''bfgs'' method then HessName ''bfgs''
                       else HessFun (obj_hess objective)) \<and>
          fm_method a = str_replace ''-bfgs'' [] method) \<and>
   str_contains ''bfgs'' ''dogleg-bfgs'' \<and> str_contains ''bfgs'' ''subspace-bfgs'' \<and>
   \<not> str_contains ''bfgs'' ''dogleg'' \<and> \<not> str_contains ''bfgs'' ''subspace'' \<and>
   map (str_replace ''-bfgs'' []) [''dogleg'', ''subspace'', ''dogleg-bfgs'', ''subspace-bfgs''] =
     [''dogleg'', ''subspace'', ''dogleg'', ''subspace''] \<and>
   map (strip_suffix ''-bfgs'') [''dogleg'', ''subspace'', ''dogleg-bfgs'', ''subspace-bfgs''] =
     [''dogleg'', ''subspace'', ''dogleg'', ''subspace''] \<and>
   (\<exists>reg. optimizers = Inr reg \<and>
      map (\<lambda>name. map_sum id hessian_spec (resolve reg name))
        [''dogleg'', ''subspace'', ''dogleg-bfgs'', ''subspace-bfgs''] =
      [Inr True, Inr True, Inr False, Inr False])"
proof -
  have passes: "\<exists>a. optimize_desc_fmin_scalar (\<lambda>a. a) objective None x0 method x_scale verbose
      stoptol options = Inr a \<and>
      fm_hess a = (if str_contains ''bfgs'' method then HessName ''bfgs''
                   else HessFun (obj_hess objective)) \<and>
      fm_method a = str_replace ''-bfgs'' [] method"
    by (simp add: fmin_scalar_call[OF assms])
  have stripped: "map (strip_suffix ''-bfgs'')
      [''dogleg'', ''subspace'', ''dogleg-bfgs'', ''subspace-bfgs''] =
      [''dogleg'', ''subspace'', ''dogleg'', ''subspace'']"
    by (simp add: strip_suffix_def suffix_def)
  have flags: "\<exists>reg. optimizers = Inr reg \<and>
      map (\<lambda>name. map_sum id hessian_spec (resolve reg name))
        [''dogleg'', ''subspace'', ''dogleg-bfgs'', ''subspace-bfgs''] =
      [Inr True, Inr True, Inr False, Inr False]"
    by (simp add: optimizers_value resolve_def module_registry_def)
  have names: "str_contains ''bfgs'' ''dogleg-bfgs''" "str_contains ''bfgs'' ''subspace-bfgs''"
    "\<not> str_contains ''bfgs'' ''dogleg''" "\<not> str_contains ''bfgs'' ''subspace''"
    "map (str_replace ''-bfgs'' []) [''dogleg'', ''subspace'', ''dogleg-bfgs'', ''subspace-bfgs''] =
     [''dogleg'', ''subspace'', ''dogleg'', ''subspace'']"
    by simp_all
  show ?thesis
    by (intro conjI) (fact passes stripped flags names)+
qed

theorem fmin_scalar_hessian_choice_witness:
  "example_stoptol ''ftol'' = Some (1 / 10 ^ 6) \<and> example_stoptol ''xtol'' = Some (1 / 10 ^ 6) \<and>
   example_stoptol ''gtol'' = Some (1 / 10 ^ 6) \<and> example_stoptol ''maxiter'' = Some 100 \<and>
   map_sum id (\<lambda>a. (fm_hess a, fm_method a))
     (optimize_desc_fmin_scalar (\<lambda>a. a) shifted_identity None [0] ''dogleg-bfgs''
        (ScaleStr ''jac'') 0 example_stoptol None) = Inr (HessName ''bfgs'', ''dogleg'') \<and>
   map_sum id (\<lambda>a. (fm_hess a, fm_method a))
     (optimize_desc_fmin_scalar (\<lambda>a. a) shifted_identity None [0] ''subspace-bfgs''
        (ScaleStr ''jac'') 0 example_stoptol None) = Inr (HessName ''bfgs'', ''subspace'') \<and>
   map_sum id (\<lambda>a. (fm_hess a, fm_method a))
     (optimize_desc_fmin_scalar (\<lambda>a. a) shifted_identity None [0] ''dogleg''
        (ScaleStr ''jac'') 0 example_stoptol None) =
     Inr (HessFun (obj_hess shifted_identity), ''dogleg'') \<and>
   map_sum id (\<lambda>a. (fm_hess a, fm_method a))
     (optimize_desc_fmin_scalar (\<lambda>a. a) shifted_identity None [0] ''subspace''
        (ScaleStr ''jac'') 0 example_stoptol None) =
     Inr (HessFun (obj_hess shifted_identity), ''subspace'')"
proof -
  note choice = fmin_scalar_hessian_choice[OF example_stoptol_keys(1-4), THEN conjunct1]
  have bfgs: "map_sum id (\<lambda>a. (fm_hess a, fm_method a))
     (optimize_desc_fmin_scalar (\<lambda>a. a) shifted_identity None [0] ''dogleg-bfgs''
        (ScaleStr ''jac'') 0 example_stoptol None) = Inr (HessName ''bfgs'', ''dogleg'')"
    using choice[of shifted_identity "[0]" "''dogleg-bfgs''" "ScaleStr ''jac''" 0 None]
    by auto
  have sbfgs: "map_sum id (\<lambda>a. (fm_hess a, fm_method a))
     (optimize_desc_fmin_scalar (\<lambda>a. a) shifted_identity None [0] ''subspace-bfgs''
        (ScaleStr ''jac'') 0 example_stoptol None) = Inr (HessName ''bfgs'', ''subspace'')"
    using choice[of shifted_identity "[0]" "''subspace-bfgs''" "ScaleStr ''jac''" 0 None]
    by auto
  have exact: "map_sum id (\<lambda>a. (fm_hess a, fm_method a))
     (optimize_desc_fmin_scalar (\<lambda>a. a) shifted_identity None [0] ''dogleg''
        (ScaleStr ''jac'') 0 example_stoptol None) =
     Inr (HessFun (obj_hess shifted_identity), ''dogleg'')"
    using choice[of shifted_identity "[0]" "''dogleg''" "ScaleStr ''jac''" 0 None]
    by auto
  have sexact: "map_sum id (\<lambda>a. (fm_hess a, fm_method a))
     (optimize_desc_fmin_scalar (\<lambda>a. a) shifted_identity None [0] ''subspace''
        (ScaleStr ''jac'') 0 example_stoptol None) =
     Inr (HessFun (obj_hess shifted_identity), ''subspace'')"
    using choice[of shifted_identity "[0]" "''subspace''" "ScaleStr ''jac''" 0 None]
    by auto
  show ?thesis
    by (intro conjI) (fact example_stoptol_keys bfgs sbfgs exact sexact)+
qed

lemma example_fmin_call:
  "optimize_desc_fmin_scalar (\<lambda>a. a) shifted_identity None [0] ''dogleg-bfgs'' (ScaleStr ''jac'') 0
     example_stoptol None =
   Inr \<lparr>fm_fun = obj_compute_scalar shifted_identity, fm_x0 = [0],
        fm_grad = obj_grad shifted_identity, fm_hess = HessName ''bfgs'', fm_method = ''dogleg'',
        fm_x_scale = ScaleStr ''jac'', fm_ftol = 1 / 10 ^ 6, fm_xtol = 1 / 10 ^ 6,
        fm_gtol = 1 / 10 ^ 6, fm_maxiter = 100, fm_verbose = 0, fm_options = Map.empty\<rparr>"
  by (simp add: optimize_desc_fmin_scalar_def example_stoptol_def getitem_def and_then_def
      fmin_scalar_options_def unit_scale_def options_or_empty_def)

subsection \<open>Resolving method names\<close>

text \<open>
  C6. Resolving each of the six method names the module registers gives back the driver
  and the capability flags it was registered with, and resolving any other name fails
  with \<open>UnknownMethodError\<close>.
\<close>

theorem registry_resolve:
  "\<exists>reg. optimizers = Inr reg \<and>
     resolve reg ''lsq-exact'' =
       Inr \<lparr>driver_fn = Least_squares_driver, is_scalar = False,
            supports_equality_constraints = False, supports_inequality_constraints = False,
            is_stochastic = False, hessian_spec = False\<rparr> \<and>
     resolve reg ''dogleg'' =
       Inr \<lparr>driver_fn = Fmin_scalar_driver, is_scalar = True,
            supports_equality_constraints = False, supports_inequality_constraints = False,
            is_stochastic = False, hessian_spec = True\<rparr> \<and>
     resolve reg ''subspace'' =
       Inr \<lparr>driver_fn = Fmin_scalar_driver, is_scalar = True,
            supports_equality_constraints = False, supports_inequality_constraints = False,
            is_stochastic = False, hessian_spec = True\<rparr> \<and>
     resolve reg ''dogleg-bfgs'' =
       Inr \<lparr>driver_fn = Fmin_scalar_driver, is_scalar = True,
            supports_equality_constraints = False, supports_inequality_constraints = False,
            is_stochastic = False, hessian_spec = False\<rparr> \<and>
     resolve reg ''subspace-bfgs'' =
       Inr \<lparr>driver_fn = Fmin_scalar_driver, is_scalar = True,
            supports_equality_constraints = False, supports_inequality_constraints = False,
            is_stochastic = False, hessian_spec = False\<rparr> \<and>
     resolve reg ''sgd'' =
       Inr \<lparr>driver_fn = Stochastic_driver, is_scalar = True,
            supports_equality_constraints = False, supports_inequality_constraints = False,
            is_stochastic = True, hessian_spec = False\<rparr> \<and>
     (name \<notin> set registered_names \<longrightarrow> resolve reg name = Inl (UnknownMethodError name))"
proof (intro exI conjI)
  show "optimizers = Inr module_registry" by (rule optimizers_value)
qed (simp_all add: resolve_def module_registry_def registered_names_def)

theorem registry_resolve_witness:
  "''lbfgs'' \<notin> set registered_names \<and>
   (\<exists>reg. optimizers = Inr reg \<and> resolve reg ''lbfgs'' = Inl (UnknownMethodError ''lbfgs'') \<and>
      map_sum id driver_fn (resolve reg ''sgd'') = Inr Stochastic_driver)"
proof -
  have n: "''lbfgs'' \<notin> set registered_names" by (simp add: registered_names_def)
  from registry_resolve[of "''lbfgs''"] obtain reg where
    r: "optimizers = Inr reg" "resolve reg ''sgd'' =
       Inr \<lparr>driver_fn = Stochastic_driver, is_scalar = True,
            supports_equality_constraints = False, supports_inequality_constraints = False,
            is_stochastic = True, hessian_spec = False\<rparr>"
      "''lbfgs'' \<notin> set registered_names \<longrightarrow> resolve reg ''lbfgs'' = Inl (UnknownMethodError ''lbfgs'')"
    by blast
  show ?thesis using n r by auto
qed

subsection \<open>The stochastic driver with learning rate 0\<close>

lemma zero_step: "length g = length x \<Longrightarrow> vsub x (smul 0 g) = x"
proof (induction x arbitrary: g)
  case Nil
  then show ?case by (simp add: vsub_def smul_def)
next
  case (Cons v x)
  then obtain w g' where "g = w # g'" by (cases g) auto
  then show ?case using Cons by (simp add: vsub_def smul_def)
qed

lemma sgd_iterate_fixed:
  "\<forall>k. rate (sg_options a) k = 0 \<Longrightarrow> \<forall>z. length (sg_grad a z) = length z \<Longrightarrow>
   res_x (sgd_iterate rate a k x) = x"
proof (induction rate a k x rule: sgd_iterate.induct)
  case (1 rate a k x)
  have same: "vsub x (smul (rate (sg_options a) k) (sg_grad a x)) = x"
    using "1.prems" by (simp add: zero_step)
  show ?case
  proof (cases "sg_maxiter a \<le> real k")
    case True
    then show ?thesis by (subst sgd_iterate.simps) (simp add: sgd_finish_def)
  next
    case False
    show ?thesis
    proof (cases "ratio_less (norm2 (vsub x x)) (norm2 x) (sg_xtol a) \<or>
                  ratio_less \<bar>sg_fun a x - sg_fun a x\<bar> \<bar>sg_fun a x\<bar> (sg_ftol a)")
      case True
      then show ?thesis using False same
        by (subst sgd_iterate.simps) (simp add: sgd_finish_def)
    next
      case stay: False
      have "res_x (sgd_iterate rate a (Suc k) x) = x"
        using "1.IH"[OF False refl] stay same "1.prems" by simp
      then show ?thesis using False stay same
        by (subst sgd_iterate.simps) simp
    qed
  qed
qed

text \<open>
  C7. For every starting point and every number of iterations, the sgd driver run with
  learning rate 0 returns a result whose \<open>x\<close> is the starting point (the gradient having
  the dimension of \<open>x\<close>, and \<open>stoptol\<close> holding the four keys the wrapper reads).
\<close>

theorem sgd_zero_learning_rate:
  assumes "\<forall>k. rate (options_or_empty options) k = 0"
    and "\<forall>z. length (obj_grad objective z) = length z"
    and "stoptol ''ftol'' = Some ftol" and "stoptol ''xtol'' = Some xtol"
    and "stoptol ''gtol'' = Some gtol" and "stoptol ''maxiter'' = Some maxiter"
  shows "\<exists>r. optimize_desc_stochastic (sgd rate) objective None x0 method x_scale verbose
                stoptol options = Inr r \<and> res_x r = x0"
  using assms
  by (simp add: optimize_desc_stochastic_def getitem_Some and_then_def sgd_def sgd_iterate_fixed)

theorem sgd_zero_learning_rate_witness:
  "(\<forall>k. example_rate (options_or_empty (Some [''learning_rate'' \<mapsto> Num 0])) k = 0) \<and>
   (\<forall>z. length (obj_grad shifted_identity z) = length z) \<and>
   example_stoptol ''maxiter'' = Some 100 \<and>
   (\<exists>r. optimize_desc_stochastic (sgd example_rate) shifted_identity None [0, 5] ''sgd''
           (ScaleStr ''jac'') 0 example_stoptol (Some [''learning_rate'' \<mapsto> Num 0]) = Inr r \<and>
         res_x r = [0, 5])"
proof -
  have zero: "\<forall>k. example_rate (options_or_empty (Some [''learning_rate'' \<mapsto> Num 0])) k = 0"
    by (simp add: example_rate_def options_or_empty_def option_num_def)
  have dims: "\<forall>z. length (obj_grad shifted_identity z) = length z"
    by (simp add: shifted_identity_def)
  show ?thesis
    using sgd_zero_learning_rate[of example_rate "Some [''learning_rate'' \<mapsto> Num 0]"
        shifted_identity example_stoptol "1 / 10 ^ 6" "1 / 10 ^ 6" "1 / 10 ^ 6" 100 "[0, 5]"
        "''sgd''" "ScaleStr ''jac''" 0]
      zero dims example_stoptol_keys(1-4)
    by blast
qed

section \<open>Properties of the backend\<close>

lemma test_sign_passes: "test_sign"
  by (simp add: test_sign_def sign_def)

text \<open>
  C10. The backend sign function returns +1 for input 0, +1 for every positive input and
  -1 for every negative input; it never returns 0.
\<close>

theorem sign_values:
  "sign 0 = 1 \<and> (0 < x \<longrightarrow> sign x = 1) \<and> (y < 0 \<longrightarrow> sign y = - 1) \<and> sign z \<noteq> 0"
  by (simp add: sign_def sgn_real_def)

theorem sign_values_witness:
  "(0::real) < 4 \<and> sign 4 = 1 \<and> (- 10.3 :: real) < 0 \<and> sign (- 10.3) = - 1 \<and> sign 0 \<noteq> 0"
  using sign_values [of 4 "- 10.3" 0] by simp

end
